theory Spec2Isabelle
  imports Main "HOL-Library.Sublist"
begin

section \<open>JavaScript values\<close>

text \<open>
  Values that reach the program through \<^verbatim>\<open>JSON.parse\<close> / \<^verbatim>\<open>response.json()\<close>.
  A JavaScript value that may be \<^verbatim>\<open>undefined\<close> is a \<open>json option\<close>, with \<open>None\<close> for
  \<^verbatim>\<open>undefined\<close>. Strings are lists of 8-bit code units. A number is held as the text
  JavaScript prints for it (\<open>0\<close>, \<open>-1.5\<close>, \<open>1e+21\<close>): different numbers print differently,
  except that minus zero prints as \<open>0\<close> as zero does, and the program only tests a number
  for truthiness and interpolates it into text, which this text determines.
  The entries of \<open>JObj\<close> are the own properties of the parsed object (keys distinct).
\<close>

datatype json =
    JNull
  | JBool bool
  | JNum string
  | JStr string
  | JArr "json list"
  | JObj "(string \<times> json) list"

datatype js_error =
    TypeError
  | SyntaxError
  | FetchFailed
  | UpstreamFailed
  | Error string

text \<open>Truthiness, as used by \<^verbatim>\<open>!x\<close>, \<^verbatim>\<open>x ? a : b\<close> and \<^verbatim>\<open>x || y\<close>.\<close>

fun truthy :: "json option \<Rightarrow> bool" where
  "truthy None = False"
| "truthy (Some JNull) = False"
| "truthy (Some (JBool b)) = b"
| "truthy (Some (JNum n)) = (n \<noteq> ''0'')"
| "truthy (Some (JStr s)) = (s \<noteq> [])"
| "truthy (Some (JArr xs)) = True"
| "truthy (Some (JObj kvs)) = True"

text \<open>\<^verbatim>\<open>a || b\<close>, and \<^verbatim>\<open>a || d\<close> for a default \<open>d\<close> that is never \<^verbatim>\<open>undefined\<close>.\<close>

definition or_js :: "json option \<Rightarrow> json option \<Rightarrow> json option" where
  "or_js a b = (if truthy a then a else b)"

definition or_default :: "json option \<Rightarrow> json \<Rightarrow> json" where
  "or_default a d = (case a of None \<Rightarrow> d | Some v \<Rightarrow> if truthy (Some v) then v else d)"

text \<open>
  Property read \<^verbatim>\<open>x.k\<close> on a value that is neither \<^verbatim>\<open>null\<close> nor \<^verbatim>\<open>undefined\<close>, for
  the keys the program reads (none of them is a built-in property of arrays, strings,
  numbers or booleans). Reading a property of \<^verbatim>\<open>null\<close> or \<^verbatim>\<open>undefined\<close> throws a
  \<^verbatim>\<open>TypeError\<close>: see \<open>getProp\<close>.
\<close>

fun readProp :: "json \<Rightarrow> string \<Rightarrow> json option" where
  "readProp (JObj kvs) k = map_of kvs k"
| "readProp v k = None"

fun getProp :: "json option \<Rightarrow> string \<Rightarrow> js_error + json option" where
  "getProp None k = Inl TypeError"
| "getProp (Some JNull) k = Inl TypeError"
| "getProp (Some v) k = Inr (readProp v k)"

fun join :: "string \<Rightarrow> string list \<Rightarrow> string" where
  "join sep [] = []"
| "join sep [x] = x"
| "join sep (x # y # ys) = x @ sep @ join sep (y # ys)"

text \<open>
  Conversions that are done one after the other, each of which may throw: the first
  exception is the outcome, otherwise the results are kept in their order.
\<close>

fun collect :: "(js_error + string) list \<Rightarrow> js_error + string list" where
  "collect [] = Inr []"
| "collect (Inl e # rs) = Inl e"
| "collect (Inr x # rs) = (case collect rs of Inl e \<Rightarrow> Inl e | Inr xs \<Rightarrow> Inr (x # xs))"

text \<open>
  String conversion, as done by template-literal interpolation \<^verbatim>\<open>${x}\<close>. An array is
  the texts of its elements joined by commas, \<^verbatim>\<open>null\<close> elements giving the empty text.
  An object is \<^verbatim>\<open>[object Object]\<close> through the \<^verbatim>\<open>toString\<close> it inherits; when it has a
  property \<^verbatim>\<open>toString\<close> of its own, which is not callable whatever its value, the
  conversion throws a \<^verbatim>\<open>TypeError\<close>.
\<close>

fun toString :: "json \<Rightarrow> js_error + string" where
  "toString JNull = Inr ''null''"
| "toString (JBool b) = Inr (if b then ''true'' else ''false'')"
| "toString (JNum n) = Inr n"
| "toString (JStr s) = Inr s"
| "toString (JArr xs) =
     (case collect (map (\<lambda>x. if x = JNull then Inr [] else toString x) xs) of
        Inl e \<Rightarrow> Inl e
      | Inr ts \<Rightarrow> Inr (join '','' ts))"
| "toString (JObj kvs) =
     (if map_of kvs ''toString'' = None then Inr ''[object Object]'' else Inl TypeError)"

text \<open>\<^verbatim>\<open>${x}\<close> for a value that may be \<^verbatim>\<open>undefined\<close>.\<close>

definition interp :: "json option \<Rightarrow> js_error + string" where
  "interp v = (case v of None \<Rightarrow> Inr ''undefined'' | Some x \<Rightarrow> toString x)"

text \<open>A template literal without line breaks: its parts, converted from left to right
  and put together.\<close>

definition cat :: "(js_error + string) list \<Rightarrow> js_error + string" where
  "cat parts = (case collect parts of Inl e \<Rightarrow> Inl e | Inr ts \<Rightarrow> Inr (concat ts))"

text \<open>\<^verbatim>\<open>${v ? `label${v}rest` : ''}\<close>: one conditional piece of a template literal.\<close>

definition piece :: "string \<Rightarrow> json option \<Rightarrow> string \<Rightarrow> js_error + string" where
  "piece label v rest = (if truthy v then cat [Inr label, interp v, Inr rest] else Inr [])"

text \<open>
  \<^verbatim>\<open>String.prototype.trim\<close>: white space and line terminators are removed from both
  ends. Of the code units below 256 these are tab, line feed, vertical tab, form feed,
  carriage return, space and no-break space.
\<close>

definition nl :: string where
  "nl = [CHR 0x0A]"

definition isWhiteSpace :: "char \<Rightarrow> bool" where
  "isWhiteSpace c = (c \<in> set [CHR 0x09, CHR 0x0A, CHR 0x0B, CHR 0x0C, CHR 0x0D, CHR 0x20, CHR 0xA0])"

definition trim :: "string \<Rightarrow> string" where
  "trim s = rev (dropWhile isWhiteSpace (rev (dropWhile isWhiteSpace s)))"

section \<open>Data model of the client\<close>

text \<open>
  \<^verbatim>\<open>interface Contact\<close>. The field \<^verbatim>\<open>id\<close> is \<open>id_c\<close> here. The fields filled from the
  extraction result hold whatever value the result carried.
\<close>

record Contact =
  id_c :: int
  name :: json
  company :: "json option"
  role :: "json option"
  email :: "json option"
  phone :: "json option"
  location :: "json option"
  photo :: "string option"
  summary :: "json option"
  keyTopics :: "json option"
  actionItems :: "json option"
  followUpSuggestion :: "json option"
  rawNotes :: "string option"
  meetingContext :: "json option"
  createdAt :: string

text \<open>\<^verbatim>\<open>interface FormData\<close>; its fields carry the suffix \<open>_fd\<close>.\<close>

record FormData =
  name_fd :: string
  company_fd :: string
  role_fd :: string
  email_fd :: string
  phone_fd :: string
  location_fd :: string
  meetingContext_fd :: string

datatype view = View_list | View_new | View_detail

text \<open>The \<^verbatim>\<open>useState\<close> cells of the component \<^verbatim>\<open>NetworkNote\<close>.\<close>

record AppState =
  contacts :: "Contact list"
  currentContact :: "Contact option"
  isRecording :: bool
  transcript :: string
  photo_s :: "string option"
  isProcessing :: bool
  view :: view
  speechSupported :: bool
  formData :: FormData

definition emptyForm :: FormData where
  "emptyForm = \<lparr> name_fd = [], company_fd = [], role_fd = [], email_fd = [],
                 phone_fd = [], location_fd = [], meetingContext_fd = [] \<rparr>"

definition initialState :: AppState where
  "initialState = \<lparr> contacts = [], currentContact = None, isRecording = False,
                    transcript = [], photo_s = None, isProcessing = False,
                    view = View_list, speechSupported = False, formData = emptyForm \<rparr>"

definition resetForm :: "AppState \<Rightarrow> AppState" where
  "resetForm st = st \<lparr> transcript := [], photo_s := None, formData := emptyForm \<rparr>"

section \<open>Deleting a contact\<close>

definition deleteContact :: "int \<Rightarrow> AppState \<Rightarrow> AppState" where
  "deleteContact i st =
     st \<lparr> contacts := filter (\<lambda>c. id_c c \<noteq> i) (contacts st),
          view := View_list,
          currentContact := None \<rparr>"

section \<open>The creation flow\<close>

text \<open>
  What the environment answers to \<^verbatim>\<open>fetch('/api/process', ...)\<close> followed by
  \<^verbatim>\<open>response.json()\<close>: the fetch rejects, or it resolves to a response with its
  \<^verbatim>\<open>ok\<close> flag and its body (\<open>None\<close> when the body is not JSON, so that
  \<^verbatim>\<open>response.json()\<close> rejects).
\<close>

datatype fetch_outcome =
    FetchRejected
  | FetchResponse bool "json option"

text \<open>A string of the draft as a JavaScript value.\<close>

definition str :: "string \<Rightarrow> json option" where
  "str s = Some (JStr s)"

text \<open>
  The object literal \<^verbatim>\<open>newContact\<close> of the success path. \<open>now\<close> is \<^verbatim>\<open>Date.now()\<close>,
  \<open>stamp\<close> is \<^verbatim>\<open>new Date().toISOString()\<close>; \<open>t\<close>, \<open>fd\<close> and \<open>ph\<close> are the transcript,
  the draft and the photo of the render that started the flow. Reading \<^verbatim>\<open>parsed.name\<close>
  throws when \<open>parsed\<close> is \<^verbatim>\<open>null\<close>.
\<close>

definition newContact ::
  "int \<Rightarrow> string \<Rightarrow> string \<Rightarrow> FormData \<Rightarrow> string option \<Rightarrow> json \<Rightarrow> js_error + Contact" where
  "newContact now stamp t fd ph parsed =
     (if parsed = JNull then Inl TypeError
      else Inr \<lparr>
        id_c = now,
        name = or_default (or_js (readProp parsed ''name'') (str (name_fd fd))) (JStr ''Unknown Contact''),
        company = or_js (or_js (readProp parsed ''company'') (str (company_fd fd))) None,
        role = or_js (or_js (readProp parsed ''role'') (str (role_fd fd))) None,
        email = or_js (or_js (readProp parsed ''email'') (str (email_fd fd))) None,
        phone = or_js (or_js (readProp parsed ''phone'') (str (phone_fd fd))) None,
        location = or_js (or_js (readProp parsed ''location'') (str (location_fd fd))) None,
        photo = (case ph of None \<Rightarrow> None | Some p \<Rightarrow> if p = [] then None else Some p),
        summary = readProp parsed ''summary'',
        keyTopics = readProp parsed ''keyTopics'',
        actionItems = readProp parsed ''actionItems'',
        followUpSuggestion = readProp parsed ''followUpSuggestion'',
        rawNotes = Some t,
        meetingContext = or_js (str (meetingContext_fd fd)) None,
        createdAt = stamp \<rparr>)"

text \<open>The object literal \<^verbatim>\<open>fallbackContact\<close> of the \<^verbatim>\<open>catch\<close> block.\<close>

definition fallbackContact ::
  "int \<Rightarrow> string \<Rightarrow> string \<Rightarrow> FormData \<Rightarrow> string option \<Rightarrow> Contact" where
  "fallbackContact now stamp t fd ph =
     \<lparr> id_c = now,
       name = or_default (str (name_fd fd)) (JStr ''New Contact''),
       company = or_js (str (company_fd fd)) None,
       role = or_js (str (role_fd fd)) None,
       email = or_js (str (email_fd fd)) None,
       phone = or_js (str (phone_fd fd)) None,
       location = or_js (str (location_fd fd)) None,
       photo = (case ph of None \<Rightarrow> None | Some p \<Rightarrow> if p = [] then None else Some p),
       summary = Some (JStr ''Notes captured - AI summary unavailable''),
       keyTopics = Some (JArr []),
       actionItems = Some (JArr []),
       followUpSuggestion = Some (JStr ''Review notes and follow up as appropriate''),
       rawNotes = Some t,
       meetingContext = or_js (str (meetingContext_fd fd)) None,
       createdAt = stamp \<rparr>"

text \<open>
  The four state updates both paths end with: prepend the contact, make it current,
  show the detail view, reset the draft.
\<close>

definition showCreated :: "Contact \<Rightarrow> AppState \<Rightarrow> AppState" where
  "showCreated c st =
     resetForm (st \<lparr> contacts := c # contacts st, currentContact := Some c, view := View_detail \<rparr>)"

text \<open>
  The \<^verbatim>\<open>try\<close> block, run on the state \<open>st\<close> the application is in when the awaited call
  settles. It returns the exception it threw, if any, and the state it left behind.
\<close>

definition tryBlock ::
  "int \<Rightarrow> string \<Rightarrow> string \<Rightarrow> FormData \<Rightarrow> string option \<Rightarrow> fetch_outcome \<Rightarrow> AppState
     \<Rightarrow> js_error option \<times> AppState" where
  "tryBlock now stamp t fd ph outcome st =
     (case outcome of
        FetchRejected \<Rightarrow> (Some FetchFailed, st)
      | FetchResponse ok payload \<Rightarrow>
          if \<not> ok then (Some (Error ''API request failed''), st)
          else (case payload of
                  None \<Rightarrow> (Some SyntaxError, st)
                | Some parsed \<Rightarrow>
                    (case newContact now stamp t fd ph parsed of
                       Inl e \<Rightarrow> (Some e, st)
                     | Inr c \<Rightarrow> (None, showCreated c st))))"

definition catchBlock ::
  "int \<Rightarrow> string \<Rightarrow> string \<Rightarrow> FormData \<Rightarrow> string option \<Rightarrow> AppState \<Rightarrow> AppState" where
  "catchBlock now stamp t fd ph st = showCreated (fallbackContact now stamp t fd ph) st"

text \<open>
  \<^verbatim>\<open>processWithAI\<close> in its two halves. \<open>processWithAI_begin\<close> is the part before the
  \<^verbatim>\<open>await\<close>: it returns \<open>None\<close> when the function returns at once.
  \<open>processWithAI_resume\<close> is the part after it, with the values \<open>t\<close>, \<open>fd\<close>, \<open>ph\<close> captured
  by the closure, applied to the state \<open>st\<close> current when the call settles.
\<close>

definition processWithAI_begin :: "AppState \<Rightarrow> AppState option" where
  "processWithAI_begin st =
     (if trim (transcript st) = [] then None else Some (st \<lparr> isProcessing := True \<rparr>))"

definition processWithAI_resume ::
  "int \<Rightarrow> string \<Rightarrow> string \<Rightarrow> FormData \<Rightarrow> string option \<Rightarrow> fetch_outcome \<Rightarrow> AppState
     \<Rightarrow> AppState" where
  "processWithAI_resume now stamp t fd ph outcome st =
     (case tryBlock now stamp t fd ph outcome st of
        (None, st1) \<Rightarrow> st1 \<lparr> isProcessing := False \<rparr>
      | (Some e, st1) \<Rightarrow> (catchBlock now stamp t fd ph st1) \<lparr> isProcessing := False \<rparr>)"

text \<open>The whole function when nothing else happens while the call is outstanding.\<close>

definition processWithAI :: "int \<Rightarrow> string \<Rightarrow> fetch_outcome \<Rightarrow> AppState \<Rightarrow> AppState" where
  "processWithAI now stamp outcome st =
     (case processWithAI_begin st of
        None \<Rightarrow> st
      | Some st1 \<Rightarrow>
          processWithAI_resume now stamp (transcript st) (formData st) (photo_s st) outcome st1)"

text \<open>The \<^verbatim>\<open>disabled\<close> attribute of the process button, and a click on that button.\<close>

definition processDisabled :: "AppState \<Rightarrow> bool" where
  "processDisabled st = (trim (transcript st) = [] \<or> isProcessing st)"

definition clickProcess :: "AppState \<Rightarrow> AppState option" where
  "clickProcess st = (if processDisabled st then None else processWithAI_begin st)"

text \<open>
  A creation as the user performs it: open the creation view, fill in the draft, press
  the process button, and the awaited call settles with \<open>outcome_cr\<close>; \<open>now_cr\<close> and
  \<open>stamp_cr\<close> are the clock readings that go into the contact.
\<close>

record Creation =
  now_cr :: int
  stamp_cr :: string
  transcript_cr :: string
  formData_cr :: FormData
  photo_cr :: "string option"
  outcome_cr :: fetch_outcome

definition composeDraft :: "Creation \<Rightarrow> AppState \<Rightarrow> AppState" where
  "composeDraft cr st =
     st \<lparr> view := View_new, transcript := transcript_cr cr,
          formData := formData_cr cr, photo_s := photo_cr cr \<rparr>"

definition create :: "Creation \<Rightarrow> AppState \<Rightarrow> AppState" where
  "create cr st = processWithAI (now_cr cr) (stamp_cr cr) (outcome_cr cr) (composeDraft cr st)"

definition createAll :: "Creation list \<Rightarrow> AppState \<Rightarrow> AppState" where
  "createAll crs st = foldl (\<lambda>s cr. create cr s) st crs"

text \<open>The contact a flow materialises: the one of the success path if that path completes,
  the fallback contact otherwise.\<close>

definition materialised ::
  "int \<Rightarrow> string \<Rightarrow> string \<Rightarrow> FormData \<Rightarrow> string option \<Rightarrow> fetch_outcome \<Rightarrow> Contact" where
  "materialised now stamp t fd ph outcome =
     (case outcome of
        FetchResponse True (Some parsed) \<Rightarrow>
          (case newContact now stamp t fd ph parsed of
             Inr c \<Rightarrow> c
           | Inl e \<Rightarrow> fallbackContact now stamp t fd ph)
      | _ \<Rightarrow> fallbackContact now stamp t fd ph)"

definition created :: "Creation \<Rightarrow> Contact" where
  "created cr =
     materialised (now_cr cr) (stamp_cr cr) (transcript_cr cr) (formData_cr cr) (photo_cr cr)
       (outcome_cr cr)"

section \<open>vCard export\<close>

text \<open>
  The text \<^verbatim>\<open>vcard\<close> that \<^verbatim>\<open>generateVCard\<close> builds and offers for download: a template
  literal of ten lines, or the exception a conversion in it throws.
\<close>

definition generateVCard :: "Contact \<Rightarrow> js_error + string" where
  "generateVCard contact =
     (case collect
        [Inr ''BEGIN:VCARD'',
         Inr ''VERSION:3.0'',
         cat [Inr ''FN:'', toString (name contact)],
         piece ''ORG:'' (company contact) [],
         piece ''TITLE:'' (role contact) [],
         piece ''EMAIL:'' (email contact) [],
         piece ''TEL:'' (phone contact) [],
         piece ''ADR:;;'' (location contact) '';;;'',
         cat [Inr ''NOTE:'', toString (or_default (summary contact) (JStr [])),
              Inr '' | Met: '',
              toString (or_default (meetingContext contact) (JStr ''Conference''))],
         Inr ''END:VCARD'']
      of Inl e \<Rightarrow> Inl e
       | Inr ls \<Rightarrow> Inr (join nl ls))"

text \<open>The lines of a text: the pieces between line feeds.\<close>

fun lines_of :: "string \<Rightarrow> string list" where
  "lines_of [] = [[]]"
| "lines_of (c # cs) =
     (if c = CHR 0x0A then [] # lines_of cs
      else (case lines_of cs of l # ls \<Rightarrow> (c # l) # ls | [] \<Rightarrow> [[c]]))"

section \<open>Local storage and the load and save effects\<close>

text \<open>
  The browser as the storage helpers see it: whether \<^verbatim>\<open>window\<close> is defined, and the
  item under \<^verbatim>\<open>STORAGE_KEY\<close> (\<open>None\<close> when there is none, \<open>Some cs\<close> when it holds the
  serialisation of \<open>cs\<close>).
\<close>

record Browser =
  hasWindow :: bool
  stored :: "Contact list option"

definition saveToStorage :: "Browser \<Rightarrow> Contact list \<Rightarrow> Browser" where
  "saveToStorage b cs = (if hasWindow b then b \<lparr> stored := Some cs \<rparr> else b)"

definition loadFromStorage :: "Browser \<Rightarrow> Contact list" where
  "loadFromStorage b =
     (if hasWindow b then (case stored b of Some cs \<Rightarrow> cs | None \<Rightarrow> []) else [])"

text \<open>
  The first effect: read the storage and set \<^verbatim>\<open>contacts\<close> (the new value is seen from
  the next render on).
\<close>

definition loadEffect :: "Browser \<Rightarrow> AppState \<Rightarrow> AppState" where
  "loadEffect b st = st \<lparr> contacts := loadFromStorage b \<rparr>"

text \<open>The second effect, run with the \<^verbatim>\<open>contacts\<close> of the render it belongs to.\<close>

definition saveEffect :: "Browser \<Rightarrow> Contact list \<Rightarrow> Browser" where
  "saveEffect b cs =
     (if length cs > 0 \<or> length (loadFromStorage b) > 0 then saveToStorage b cs else b)"

text \<open>
  The first cycle: after the first render, which shows the state \<open>st\<close>, both effects run in
  the order they are declared. The load effect reads the storage before the save effect
  runs; the save effect sees the contacts of the first render.
\<close>

definition firstCycle :: "Browser \<Rightarrow> AppState \<Rightarrow> Browser \<times> AppState" where
  "firstCycle b st = (saveEffect b (contacts st), loadEffect b st)"

text \<open>A later cycle, after a render that changed \<^verbatim>\<open>contacts\<close>: only the save effect runs.\<close>

definition laterCycle :: "Browser \<times> AppState \<Rightarrow> Browser \<times> AppState" where
  "laterCycle bs = (case bs of (b, st) \<Rightarrow> (saveEffect b (contacts st), st))"

section \<open>The extraction endpoint\<close>

datatype content_block = TextBlock string | OtherBlock string

text \<open>What \<^verbatim>\<open>anthropic.messages.create\<close> does: it throws, or returns a message with its
  content blocks.\<close>

datatype upstream_reply = UpstreamThrows | UpstreamMessage "content_block list"

record Response =
  status :: nat
  body :: json

definition errorResponse :: "string \<Rightarrow> nat \<Rightarrow> Response" where
  "errorResponse msg code = \<lparr> status = code, body = JObj [(''error'', JStr msg)] \<rparr>"

definition responseFormat :: "string list" where
  \<open>responseFormat =
     [''Respond in JSON only, no markdown backticks or any other text:'',
      ''{'',
      ''  "name": "extracted or provided name",'',
      ''  "company": "extracted or provided company",'',
      ''  "role": "extracted or provided role/title",'',
      ''  "email": "extracted email or null",'',
      ''  "phone": "extracted phone or null",'',
      ''  "location": "extracted location or null",'',
      ''  "summary": "2-3 sentence summary of who they are and what you discussed",'',
      ''  "keyTopics": ["topic1", "topic2"],'',
      ''  "actionItems": ["action1", "action2"],'',
      ''  "followUpSuggestion": "suggested follow-up approach"'',
      ''}'']\<close>

definition instruction :: string where
  "instruction = ''Analyze this conversation notes from meeting someone at a conference/event. Extract structured information and provide a summary with action items.''"

text \<open>The template literal of the user message, with the text \<open>t\<close> of the transcript and
  the four hint lines \<open>hs\<close>: its first line, then the notes, the hints and the format of
  the answer, one per line.\<close>

definition promptText :: "string \<Rightarrow> string list \<Rightarrow> string" where
  "promptText t hs =
     join nl ([instruction, [], ''Conversation notes:'', t, []] @ hs @ [[]] @ responseFormat)"

text \<open>The hint lines, for a form value that is neither \<^verbatim>\<open>null\<close> nor \<^verbatim>\<open>undefined\<close>.\<close>

definition hintLines :: "json \<Rightarrow> js_error + string list" where
  "hintLines form =
     collect [piece ''Name provided: '' (readProp form ''name'') [],
              piece ''Company provided: '' (readProp form ''company'') [],
              piece ''Role provided: '' (readProp form ''role'') [],
              piece ''Meeting context: '' (readProp form ''meetingContext'') []]"

text \<open>
  The evaluation of the template literal, from left to right: the transcript is
  converted, then the hints are read from the form, which throws when the form is
  \<^verbatim>\<open>undefined\<close> or \<^verbatim>\<open>null\<close>, and converted.
\<close>

definition buildPrompt :: "json option \<Rightarrow> json option \<Rightarrow> js_error + string" where
  "buildPrompt tscript form =
     (case interp tscript of
        Inl e \<Rightarrow> Inl e
      | Inr t \<Rightarrow>
          (case form of
             None \<Rightarrow> Inl TypeError
           | Some f \<Rightarrow>
               if f = JNull then Inl TypeError
               else (case hintLines f of
                       Inl e \<Rightarrow> Inl e
                     | Inr hs \<Rightarrow> Inr (promptText t hs))))"

text \<open>
  \<^verbatim>\<open>s.replace(/<pat>\n?/g, '')\<close> for a literal, non-empty \<open>pat\<close>: every match, found from
  left to right, is removed together with one line feed that follows it.
\<close>

definition dropLineFeed :: "string \<Rightarrow> string" where
  "dropLineFeed s = (case s of [] \<Rightarrow> [] | c # cs \<Rightarrow> if c = CHR 0x0A then cs else s)"

function removeAll_js :: "string \<Rightarrow> string \<Rightarrow> string" where
  "removeAll_js pat s =
     (if s = [] \<or> pat = [] then s
      else if prefix pat s then removeAll_js pat (dropLineFeed (drop (length pat) s))
      else hd s # removeAll_js pat (tl s))"
  by pat_completeness auto
termination
proof (relation "measure (\<lambda>(pat, s). length s)")
  show "wf (measure (\<lambda>(pat, s). length s))" by simp
next
  fix pat s :: string
  have shorter: "length (dropLineFeed r) \<le> length r" for r
    by (simp add: dropLineFeed_def split: list.split)
  assume "\<not> (s = [] \<or> pat = [])" and "prefix pat s"
  then have "length (drop (length pat) s) < length s" by simp
  with shorter [of "drop (length pat) s"]
  show "((pat, dropLineFeed (drop (length pat) s)), (pat, s))
          \<in> measure (\<lambda>(pat, s). length s)"
    by simp
next
  fix pat s :: string
  assume "\<not> (s = [] \<or> pat = [])" and "\<not> prefix pat s"
  then show "((pat, tl s), (pat, s)) \<in> measure (\<lambda>(pat, s). length s)"
    by (cases s) simp_all
qed

declare removeAll_js.simps [simp del]

definition cleanText :: "string \<Rightarrow> string" where
  \<open>cleanText text = trim (removeAll_js ''```'' (removeAll_js ''```json'' text))\<close>

fun isTextBlock :: "content_block \<Rightarrow> bool" where
  "isTextBlock (TextBlock t) = True"
| "isTextBlock (OtherBlock ty) = False"

text \<open>
  The \<^verbatim>\<open>try\<close> block of the handler. \<open>create_msg\<close> is the upstream call, \<open>parse\<close> is
  \<^verbatim>\<open>JSON.parse\<close> (\<open>None\<close> when it throws), \<open>req\<close> is what \<^verbatim>\<open>request.json()\<close> yields
  (\<open>None\<close> when it rejects). The result is the exception or the response, and the prompts
  that were sent upstream.
\<close>

definition POST_try ::
  "(string \<Rightarrow> upstream_reply) \<Rightarrow> (string \<Rightarrow> json option) \<Rightarrow> json option
     \<Rightarrow> (js_error + Response) \<times> string list" where
  "POST_try create_msg parse req =
     (case req of
        None \<Rightarrow> (Inl SyntaxError, [])
      | Some b \<Rightarrow>
          (case getProp (Some b) ''transcript'' of
             Inl e \<Rightarrow> (Inl e, [])
           | Inr tscript \<Rightarrow>
               (case getProp (Some b) ''formData'' of
                  Inl e \<Rightarrow> (Inl e, [])
                | Inr form \<Rightarrow>
                    if \<not> truthy tscript
                    then (Inr (errorResponse ''No transcript provided'' 400), [])
                    else (case buildPrompt tscript form of
                            Inl e \<Rightarrow> (Inl e, [])
                          | Inr p \<Rightarrow>
                              (case create_msg p of
                                 UpstreamThrows \<Rightarrow> (Inl UpstreamFailed, [p])
                               | UpstreamMessage content \<Rightarrow>
                                   (case find isTextBlock content of
                                      Some (TextBlock text) \<Rightarrow>
                                        (case parse (cleanText text) of
                                           None \<Rightarrow> (Inl SyntaxError, [p])
                                         | Some parsed \<Rightarrow>
                                             (Inr \<lparr> status = 200, body = parsed \<rparr>, [p]))
                                    | _ \<Rightarrow>
                                        (Inl (Error ''No text content in response''), [p])))))))"

definition POST ::
  "(string \<Rightarrow> upstream_reply) \<Rightarrow> (string \<Rightarrow> json option) \<Rightarrow> json option
     \<Rightarrow> Response \<times> string list" where
  "POST create_msg parse req =
     (case POST_try create_msg parse req of
        (Inr r, calls) \<Rightarrow> (r, calls)
      | (Inl e, calls) \<Rightarrow> (errorResponse ''Failed to process with AI'' 500, calls))"

text \<open>The body the client sends: \<^verbatim>\<open>JSON.stringify({ transcript, formData })\<close>, as the
  handler reads it back.\<close>

definition formJson :: "FormData \<Rightarrow> json" where
  "formJson fd =
     JObj [(''name'', JStr (name_fd fd)), (''company'', JStr (company_fd fd)),
           (''role'', JStr (role_fd fd)), (''email'', JStr (email_fd fd)),
           (''phone'', JStr (phone_fd fd)), (''location'', JStr (location_fd fd)),
           (''meetingContext'', JStr (meetingContext_fd fd))]"

definition clientRequest :: "string \<Rightarrow> FormData \<Rightarrow> json" where
  "clientRequest t fd = JObj [(''transcript'', JStr t), (''formData'', formJson fd)]"

section \<open>Notions used to state the properties\<close>

text \<open>The value a draft field contributes on its own: absent when the field is empty.\<close>

definition draftValue :: "string \<Rightarrow> json option" where
  "draftValue s = (if s = [] then None else Some (JStr s))"

text \<open>
  The ways the extraction call fails: the fetch rejects, the response is not ok, the body
  is not JSON, or the body is the JSON value \<^verbatim>\<open>null\<close>.
\<close>

fun extractionFails :: "fetch_outcome \<Rightarrow> bool" where
  "extractionFails FetchRejected = True"
| "extractionFails (FetchResponse ok payload) = (\<not> ok \<or> payload = None \<or> payload = Some JNull)"

text \<open>An extraction result that is of the type the endpoint promises for the overlapping
  fields: absent, \<^verbatim>\<open>null\<close> or a string.\<close>

fun nullableString :: "json option \<Rightarrow> bool" where
  "nullableString None = True"
| "nullableString (Some JNull) = True"
| "nullableString (Some (JStr s)) = True"
| "nullableString (Some v) = False"

definition overlappingFields :: "string list" where
  "overlappingFields = [''name'', ''company'', ''role'', ''email'', ''phone'', ''location'']"

text \<open>
  The precedence rule in the words of the specification: the extraction result wins if it
  is present and non-empty, otherwise the draft value, otherwise the field is absent.
\<close>

definition precedence_spec :: "json option \<Rightarrow> string \<Rightarrow> json option" where
  "precedence_spec extracted draft =
     (if extracted \<noteq> None \<and> extracted \<noteq> Some JNull \<and> extracted \<noteq> Some (JStr []) then extracted
      else if draft \<noteq> [] then Some (JStr draft)
      else None)"

text \<open>The line a hint field contributes to the prompt: the label and the value, or
  nothing when the value is empty.\<close>

definition hintLine :: "string \<Rightarrow> string \<Rightarrow> string" where
  "hintLine label v = (if v = [] then [] else label @ v)"

text \<open>A request that gets as far as the upstream call, with the prompt \<open>p\<close>: its body \<open>b\<close>
  is not \<^verbatim>\<open>null\<close>, its transcript is truthy, and the prompt is built without exception.\<close>

definition sendsPrompt :: "json option \<Rightarrow> json \<Rightarrow> string \<Rightarrow> bool" where
  "sendsPrompt req b p =
     (req = Some b \<and> b \<noteq> JNull \<and> truthy (readProp b ''transcript'')
      \<and> buildPrompt (readProp b ''transcript'') (readProp b ''formData'') = Inr p)"

text \<open>
  The prompt as C9, amended, describes it: the fixed template with the transcript
  and one line for each of the hints name, company, role and meeting context, the line
  being empty when the hint is.
\<close>

definition expectedPrompt :: "string \<Rightarrow> FormData \<Rightarrow> string" where
  "expectedPrompt t fd =
     join nl
       ([instruction,
         [],
         ''Conversation notes:'',
         t,
         [],
         hintLine ''Name provided: '' (name_fd fd),
         hintLine ''Company provided: '' (company_fd fd),
         hintLine ''Role provided: '' (role_fd fd),
         hintLine ''Meeting context: '' (meetingContext_fd fd),
         []] @ responseFormat)"

section \<open>Example data\<close>

text \<open>A contact with nothing but an id and a name.\<close>

definition nameOnly :: "int \<Rightarrow> json \<Rightarrow> Contact" where
  "nameOnly i n =
     \<lparr> id_c = i, name = n, company = None, role = None, email = None, phone = None,
       location = None, photo = None, summary = None, keyTopics = None, actionItems = None,
       followUpSuggestion = None, rawNotes = None, meetingContext = None, createdAt = [] \<rparr>"

definition threeContacts :: AppState where
  "threeContacts =
     initialState \<lparr> contacts :=
       [nameOnly 1 (JStr ''Ann''), nameOnly 2 (JStr ''Bob''), nameOnly 3 (JStr ''Cy'')] \<rparr>"

definition draftState :: AppState where
  "draftState =
     initialState \<lparr> view := View_new,
       transcript := ''Met Sarah from Acme Corp, VP of Engineering. Follow up next week.'',
       formData := emptyForm \<lparr> phone_fd := ''555-0100'', meetingContext_fd := ''Conf Hall B'' \<rparr> \<rparr>"

definition sarahReply :: json where
  "sarahReply =
     JObj [(''name'', JStr ''Sarah''), (''company'', JStr ''Acme Corp''),
           (''role'', JStr ''VP of Engineering''), (''email'', JNull), (''phone'', JStr []),
           (''summary'', JStr ''Sarah is VP of Engineering at Acme Corp.''),
           (''keyTopics'', JArr [JStr ''Kubernetes'']),
           (''actionItems'', JArr [JStr ''Follow up next week'']),
           (''followUpSuggestion'', JStr ''Send a note'')]"

text \<open>Two creations whose clock readings are the same millisecond.\<close>

definition annCreation :: Creation where
  "annCreation =
     \<lparr> now_cr = 7, stamp_cr = ''2024-01-01T00:00:00.007Z'', transcript_cr = ''Met Ann'',
       formData_cr = emptyForm, photo_cr = None, outcome_cr = FetchRejected \<rparr>"

definition bobCreation :: Creation where
  "bobCreation =
     \<lparr> now_cr = 7, stamp_cr = ''2024-01-01T00:00:00.007Z'', transcript_cr = ''Met Bob'',
       formData_cr = emptyForm \<lparr> name_fd := ''Bob'' \<rparr>, photo_cr = None,
       outcome_cr = FetchResponse True (Some (JObj [(''company'', JStr ''Acme'')])) \<rparr>"

definition twoCreations :: "Creation list" where
  "twoCreations = [annCreation, bobCreation]"

text \<open>An upstream service that is down, one that answers with an empty JSON object in a
  code fence, and a \<^verbatim>\<open>JSON.parse\<close> restricted to the one text it needs to read.\<close>

definition upstreamDown :: "string \<Rightarrow> upstream_reply" where
  "upstreamDown p = UpstreamThrows"

definition upstreamFenced :: "string \<Rightarrow> upstream_reply" where
  \<open>upstreamFenced p = UpstreamMessage [OtherBlock ''thinking'', TextBlock (''```json'' @ nl @ ''{}'' @ nl @ ''```'')]\<close>

definition parseEmptyObject :: "string \<Rightarrow> json option" where
  "parseEmptyObject s = (if s = ''{}'' then Some (JObj []) else None)"

definition emailOnly :: FormData where
  "emailOnly = emptyForm \<lparr> email_fd := ''a@b.c'' \<rparr>"

definition hallB :: FormData where
  "hallB = emptyForm \<lparr> name_fd := ''Sarah'', meetingContext_fd := ''Conf Hall B'' \<rparr>"

text \<open>A request whose transcript is an object with a property \<^verbatim>\<open>toString\<close> of its own.\<close>

definition unprintableRequest :: json where
  "unprintableRequest =
     JObj [(''transcript'', JObj [(''toString'', JNum ''1'')]), (''formData'', JObj [])]"

section \<open>Properties of deletion\<close>

lemma deleteContact_fields:
  "contacts (deleteContact i st) = filter (\<lambda>c. id_c c \<noteq> i) (contacts st)"
  "view (deleteContact i st) = View_list"
  "currentContact (deleteContact i st) = None"
  by (simp_all add: deleteContact_def)

lemma filter_single_split:
  assumes "length (filter P xs) = 1"
  shows "\<exists>us c vs. xs = us @ c # vs \<and> P c \<and> filter (\<lambda>x. \<not> P x) xs = us @ vs"
proof -
  from assms obtain c where c: "filter P xs = [c]"
    by (cases "filter P xs") simp_all
  then obtain us vs where xs: "xs = us @ c # vs" and us: "\<forall>u\<in>set us. \<not> P u"
    and pc: "P c" and vs: "[] = filter P vs"
    by (auto simp: filter_eq_Cons_iff)
  from vs have "\<forall>v\<in>set vs. \<not> P v"
    by (metis filter_empty_conv)
  with us pc xs have "filter (\<lambda>x. \<not> P x) xs = us @ vs"
    by simp
  with xs pc show ?thesis by blast
qed

text \<open>
  C4, as stated, fails: two different contacts that carry the same id are both removed
  by one deletion, so the deletion does not remove exactly the contact it was asked for.
\<close>

theorem deleteContact_exactly_that_counterexample:
  "nameOnly 7 (JStr ''Ann'') \<noteq> nameOnly 7 (JStr ''Bob'')
   \<and> id_c (nameOnly 7 (JStr ''Ann'')) = 7
   \<and> contacts (deleteContact 7
        (initialState \<lparr> contacts := [nameOnly 7 (JStr ''Ann''), nameOnly 7 (JStr ''Bob'')] \<rparr>)) = []"
  by (simp add: deleteContact_def nameOnly_def)

text \<open>
  C4, amended: for every contact list and every id carried by exactly one contact of it,
  deleting by that id removes exactly that contact, leaves all other contacts in their
  order, returns the view to the list and clears the selected contact.
\<close>

theorem deleteContact_unique_id:
  assumes "length (filter (\<lambda>c. id_c c = i) (contacts st)) = 1"
  shows "\<exists>us c vs. contacts st = us @ c # vs \<and> id_c c = i
           \<and> contacts (deleteContact i st) = us @ vs
           \<and> view (deleteContact i st) = View_list
           \<and> currentContact (deleteContact i st) = None"
  using filter_single_split [OF assms] by (simp add: deleteContact_fields)

theorem deleteContact_unique_id_witness:
  "length (filter (\<lambda>c. id_c c = 2) (contacts threeContacts)) = 1
   \<and> (\<exists>us c vs. contacts threeContacts = us @ c # vs \<and> id_c c = 2
           \<and> contacts (deleteContact 2 threeContacts) = us @ vs
           \<and> view (deleteContact 2 threeContacts) = View_list
           \<and> currentContact (deleteContact 2 threeContacts) = None)"
proof -
  have h: "length (filter (\<lambda>c. id_c c = 2) (contacts threeContacts)) = 1"
    by (simp add: threeContacts_def nameOnly_def)
  from h deleteContact_unique_id [OF h] show ?thesis by blast
qed

section \<open>Properties of the creation flow\<close>

lemma showCreated_fields:
  "contacts (showCreated c st) = c # contacts st"
  "currentContact (showCreated c st) = Some c"
  "view (showCreated c st) = View_detail"
  "transcript (showCreated c st) = []"
  "photo_s (showCreated c st) = None"
  "formData (showCreated c st) = emptyForm"
  "isProcessing (showCreated c st) = isProcessing st"
  by (simp_all add: showCreated_def resetForm_def)

lemma tryBlock_cases:
  "(\<exists>parsed c. outcome = FetchResponse True (Some parsed)
        \<and> newContact now stamp t fd ph parsed = Inr c
        \<and> tryBlock now stamp t fd ph outcome st = (None, showCreated c st))
   \<or> (\<exists>e. tryBlock now stamp t fd ph outcome st = (Some e, st))"
  by (cases outcome) (auto simp: tryBlock_def split: option.splits sum.splits)

lemma materialised_success:
  "newContact now stamp t fd ph parsed = Inr c \<Longrightarrow>
   materialised now stamp t fd ph (FetchResponse True (Some parsed)) = c"
  by (simp add: materialised_def)

lemma materialised_failure:
  "tryBlock now stamp t fd ph outcome st = (Some e, st') \<Longrightarrow>
   materialised now stamp t fd ph outcome = fallbackContact now stamp t fd ph"
  by (cases outcome) (auto simp: tryBlock_def materialised_def split: option.splits sum.splits if_splits)

lemma processWithAI_resume_eq:
  "processWithAI_resume now stamp t fd ph outcome st =
     (showCreated (materialised now stamp t fd ph outcome) st) \<lparr> isProcessing := False \<rparr>"
proof -
  consider (ok) parsed c where "outcome = FetchResponse True (Some parsed)"
      "newContact now stamp t fd ph parsed = Inr c"
      "tryBlock now stamp t fd ph outcome st = (None, showCreated c st)"
    | (err) e where "tryBlock now stamp t fd ph outcome st = (Some e, st)"
    using tryBlock_cases [of outcome now stamp t fd ph st] by blast
  then show ?thesis
  proof cases
    case ok
    then show ?thesis
      by (simp add: processWithAI_resume_def materialised_success)
  next
    case err
    from materialised_failure [OF err] err show ?thesis
      by (simp add: processWithAI_resume_def catchBlock_def)
  qed
qed

lemma processWithAI_eq:
  "trim (transcript st) \<noteq> [] \<Longrightarrow>
   processWithAI now stamp outcome st =
     (showCreated (materialised now stamp (transcript st) (formData st) (photo_s st) outcome)
        (st \<lparr> isProcessing := True \<rparr>)) \<lparr> isProcessing := False \<rparr>"
  by (simp add: processWithAI_def processWithAI_begin_def processWithAI_resume_eq)

lemma materialised_id: "id_c (materialised now stamp t fd ph outcome) = now"
  by (cases outcome)
     (auto simp: materialised_def newContact_def fallbackContact_def
           split: option.splits sum.splits bool.splits if_splits)

lemma trim_nonblank_draftState: "trim (transcript draftState) \<noteq> []"
  by (simp add: draftState_def trim_def isWhiteSpace_def)

lemma or_js_draft: "or_js (str d) None = draftValue d"
  by (simp add: or_js_def str_def draftValue_def)

lemma or_default_draft: "or_default (str d) (JStr p) = JStr (if d = [] then p else d)"
  by (simp add: or_default_def str_def)

lemma materialised_fails:
  "extractionFails outcome \<Longrightarrow>
   materialised now stamp t fd ph outcome = fallbackContact now stamp t fd ph"
  by (cases outcome) (auto simp: materialised_def newContact_def split: option.splits bool.splits)

lemma processWithAI_fields:
  assumes "trim (transcript st) \<noteq> []"
  shows "contacts (processWithAI now stamp outcome st) =
           materialised now stamp (transcript st) (formData st) (photo_s st) outcome # contacts st"
    and "currentContact (processWithAI now stamp outcome st) =
           Some (materialised now stamp (transcript st) (formData st) (photo_s st) outcome)"
    and "view (processWithAI now stamp outcome st) = View_detail"
    and "isProcessing (processWithAI now stamp outcome st) = False"
  using assms by (simp_all add: processWithAI_eq showCreated_fields)

lemma fallbackContact_fields:
  "id_c (fallbackContact now stamp t fd ph) = now"
  "name (fallbackContact now stamp t fd ph) = JStr (if name_fd fd = [] then ''New Contact'' else name_fd fd)"
  "company (fallbackContact now stamp t fd ph) = draftValue (company_fd fd)"
  "role (fallbackContact now stamp t fd ph) = draftValue (role_fd fd)"
  "email (fallbackContact now stamp t fd ph) = draftValue (email_fd fd)"
  "phone (fallbackContact now stamp t fd ph) = draftValue (phone_fd fd)"
  "location (fallbackContact now stamp t fd ph) = draftValue (location_fd fd)"
  "summary (fallbackContact now stamp t fd ph) = Some (JStr ''Notes captured - AI summary unavailable'')"
  "keyTopics (fallbackContact now stamp t fd ph) = Some (JArr [])"
  "actionItems (fallbackContact now stamp t fd ph) = Some (JArr [])"
  "followUpSuggestion (fallbackContact now stamp t fd ph) = Some (JStr ''Review notes and follow up as appropriate'')"
  "rawNotes (fallbackContact now stamp t fd ph) = Some t"
  "meetingContext (fallbackContact now stamp t fd ph) = draftValue (meetingContext_fd fd)"
  "createdAt (fallbackContact now stamp t fd ph) = stamp"
  by (simp_all add: fallbackContact_def or_js_draft or_default_draft)

lemma precedence_or_js:
  "nullableString v \<Longrightarrow> or_js (or_js v (str d)) None = precedence_spec v d"
  by (cases v rule: nullableString.cases)
     (auto simp: or_js_def str_def precedence_spec_def)

lemma precedence_or_default:
  "nullableString v \<Longrightarrow>
   or_default (or_js v (str d)) (JStr p) =
     (case precedence_spec v d of Some x \<Rightarrow> x | None \<Rightarrow> JStr p)"
  by (cases v rule: nullableString.cases)
     (auto simp: or_js_def or_default_def str_def precedence_spec_def)

lemma precedence_none: "precedence_spec None d = draftValue d"
  by (simp add: precedence_spec_def draftValue_def)

lemma materialised_ok:
  "parsed \<noteq> JNull \<Longrightarrow>
   newContact now stamp t fd ph parsed = Inr (materialised now stamp t fd ph (FetchResponse True (Some parsed)))"
  by (simp add: materialised_def newContact_def)

lemma newContact_fields:
  assumes "newContact now stamp t fd ph parsed = Inr c"
  shows "name c = or_default (or_js (readProp parsed ''name'') (str (name_fd fd))) (JStr ''Unknown Contact'')"
    and "company c = or_js (or_js (readProp parsed ''company'') (str (company_fd fd))) None"
    and "role c = or_js (or_js (readProp parsed ''role'') (str (role_fd fd))) None"
    and "email c = or_js (or_js (readProp parsed ''email'') (str (email_fd fd))) None"
    and "phone c = or_js (or_js (readProp parsed ''phone'') (str (phone_fd fd))) None"
    and "location c = or_js (or_js (readProp parsed ''location'') (str (location_fd fd))) None"
  using assms by (auto simp: newContact_def split: if_splits)

text \<open>
  C1: a flow started with a transcript that is not blank sets the processing flag, and
  while the flag is set the process button is disabled, so that a click starts nothing.
  When the awaited call settles, in whatever state \<open>st'\<close> the application then is, exactly
  one of the two paths completes: either the \<^verbatim>\<open>try\<close> block runs to its end with the
  contact built from the extraction result, or it throws before it has changed the state
  and the \<^verbatim>\<open>catch\<close> block adds the fallback contact. Either way one contact is put in
  front of the list, it becomes the current contact, the detail view is shown and the
  processing flag is cleared.
\<close>

theorem processWithAI_resolves_exactly_once:
  assumes "trim (transcript st) \<noteq> []"
  shows "processWithAI_begin st = Some (st \<lparr> isProcessing := True \<rparr>)
     \<and> processDisabled (st \<lparr> isProcessing := True \<rparr>)
     \<and> clickProcess (st \<lparr> isProcessing := True \<rparr>) = None
     \<and> processWithAI now stamp outcome st =
         processWithAI_resume now stamp (transcript st) (formData st) (photo_s st) outcome
           (st \<lparr> isProcessing := True \<rparr>)
     \<and> (\<exists>c. contacts (processWithAI_resume now stamp (transcript st) (formData st) (photo_s st) outcome st')
              = c # contacts st'
          \<and> currentContact (processWithAI_resume now stamp (transcript st) (formData st) (photo_s st) outcome st')
              = Some c
          \<and> view (processWithAI_resume now stamp (transcript st) (formData st) (photo_s st) outcome st')
              = View_detail
          \<and> \<not> isProcessing (processWithAI_resume now stamp (transcript st) (formData st) (photo_s st) outcome st')
          \<and> ((\<exists>parsed. outcome = FetchResponse True (Some parsed)
                 \<and> newContact now stamp (transcript st) (formData st) (photo_s st) parsed = Inr c
                 \<and> fst (tryBlock now stamp (transcript st) (formData st) (photo_s st) outcome st') = None)
              \<noteq> (fst (tryBlock now stamp (transcript st) (formData st) (photo_s st) outcome st') \<noteq> None
                 \<and> snd (tryBlock now stamp (transcript st) (formData st) (photo_s st) outcome st') = st'
                 \<and> c = fallbackContact now stamp (transcript st) (formData st) (photo_s st))))"
proof -
  let ?t = "transcript st" and ?fd = "formData st" and ?ph = "photo_s st"
  let ?c = "materialised now stamp ?t ?fd ?ph outcome"
  have a: "processWithAI_begin st = Some (st \<lparr> isProcessing := True \<rparr>)"
    using assms by (simp add: processWithAI_begin_def)
  have b: "processDisabled (st \<lparr> isProcessing := True \<rparr>)"
    by (simp add: processDisabled_def)
  have c: "clickProcess (st \<lparr> isProcessing := True \<rparr>) = None"
    by (simp add: clickProcess_def processDisabled_def)
  have d: "processWithAI now stamp outcome st =
         processWithAI_resume now stamp ?t ?fd ?ph outcome (st \<lparr> isProcessing := True \<rparr>)"
    by (simp add: processWithAI_def a)
  have r: "processWithAI_resume now stamp ?t ?fd ?ph outcome st' =
             (showCreated ?c st') \<lparr> isProcessing := False \<rparr>"
    by (rule processWithAI_resume_eq)
  have x: "(\<exists>parsed. outcome = FetchResponse True (Some parsed)
                 \<and> newContact now stamp ?t ?fd ?ph parsed = Inr ?c
                 \<and> fst (tryBlock now stamp ?t ?fd ?ph outcome st') = None)
              \<noteq> (fst (tryBlock now stamp ?t ?fd ?ph outcome st') \<noteq> None
                 \<and> snd (tryBlock now stamp ?t ?fd ?ph outcome st') = st'
                 \<and> ?c = fallbackContact now stamp ?t ?fd ?ph)"
  proof -
    consider (ok) parsed c where "outcome = FetchResponse True (Some parsed)"
        "newContact now stamp ?t ?fd ?ph parsed = Inr c"
        "tryBlock now stamp ?t ?fd ?ph outcome st' = (None, showCreated c st')"
      | (err) e where "tryBlock now stamp ?t ?fd ?ph outcome st' = (Some e, st')"
      using tryBlock_cases [of outcome now stamp ?t ?fd ?ph st'] by blast
    then show ?thesis
    proof cases
      case ok
      then show ?thesis by (simp add: materialised_success)
    next
      case err
      from materialised_failure [OF err] err show ?thesis by simp
    qed
  qed
  from r x have e: "\<exists>c. contacts (processWithAI_resume now stamp ?t ?fd ?ph outcome st') = c # contacts st'
          \<and> currentContact (processWithAI_resume now stamp ?t ?fd ?ph outcome st') = Some c
          \<and> view (processWithAI_resume now stamp ?t ?fd ?ph outcome st') = View_detail
          \<and> \<not> isProcessing (processWithAI_resume now stamp ?t ?fd ?ph outcome st')
          \<and> ((\<exists>parsed. outcome = FetchResponse True (Some parsed)
                 \<and> newContact now stamp ?t ?fd ?ph parsed = Inr c
                 \<and> fst (tryBlock now stamp ?t ?fd ?ph outcome st') = None)
              \<noteq> (fst (tryBlock now stamp ?t ?fd ?ph outcome st') \<noteq> None
                 \<and> snd (tryBlock now stamp ?t ?fd ?ph outcome st') = st'
                 \<and> c = fallbackContact now stamp ?t ?fd ?ph))"
    by (intro exI [of _ ?c]) (simp add: showCreated_fields)
  from a b c d e show ?thesis by blast
qed

theorem processWithAI_resolves_exactly_once_witness:
  "trim (transcript draftState) \<noteq> []
   \<and> processWithAI_begin draftState = Some (draftState \<lparr> isProcessing := True \<rparr>)
   \<and> clickProcess (draftState \<lparr> isProcessing := True \<rparr>) = None
   \<and> length (contacts (processWithAI 1700000000000 ''2023-11-14T22:13:20.000Z''
          (FetchResponse True (Some sarahReply)) draftState)) = 1
   \<and> view (processWithAI 1700000000000 ''2023-11-14T22:13:20.000Z''
          (FetchResponse True (Some sarahReply)) draftState) = View_detail
   \<and> \<not> isProcessing (processWithAI 1700000000000 ''2023-11-14T22:13:20.000Z''
          (FetchResponse True (Some sarahReply)) draftState)"
proof -
  have h: "trim (transcript draftState) \<noteq> []"
    by (rule trim_nonblank_draftState)
  have e: "contacts draftState = []"
    by (simp add: draftState_def initialState_def)
  from processWithAI_resolves_exactly_once [OF h, of 1700000000000
      "''2023-11-14T22:13:20.000Z''" "FetchResponse True (Some sarahReply)"
      "draftState \<lparr> isProcessing := True \<rparr>"] h e
  show ?thesis by auto
qed

text \<open>
  C3: when the extraction call fails, the flow still ends in the detail view with a new
  contact, built from the draft and the transcript: the fixed summary, empty topics and
  action items, the generic follow-up suggestion, the draft name or \<open>New Contact\<close>, and
  the transcript as raw notes.
\<close>

theorem processWithAI_fallback:
  assumes "trim (transcript st) \<noteq> []" and "extractionFails outcome"
  shows "\<exists>c. contacts (processWithAI now stamp outcome st) = c # contacts st
           \<and> currentContact (processWithAI now stamp outcome st) = Some c
           \<and> view (processWithAI now stamp outcome st) = View_detail
           \<and> \<not> isProcessing (processWithAI now stamp outcome st)
           \<and> summary c = Some (JStr ''Notes captured - AI summary unavailable'')
           \<and> keyTopics c = Some (JArr [])
           \<and> actionItems c = Some (JArr [])
           \<and> followUpSuggestion c = Some (JStr ''Review notes and follow up as appropriate'')
           \<and> name c = JStr (if name_fd (formData st) = [] then ''New Contact''
                              else name_fd (formData st))
           \<and> rawNotes c = Some (transcript st)
           \<and> company c = draftValue (company_fd (formData st))
           \<and> role c = draftValue (role_fd (formData st))
           \<and> email c = draftValue (email_fd (formData st))
           \<and> phone c = draftValue (phone_fd (formData st))
           \<and> location c = draftValue (location_fd (formData st))
           \<and> meetingContext c = draftValue (meetingContext_fd (formData st))"
  using processWithAI_fields [OF assms(1), of now stamp outcome] materialised_fails [OF assms(2)]
  by (simp add: fallbackContact_fields)

theorem processWithAI_fallback_witness:
  "trim (transcript draftState) \<noteq> [] \<and> extractionFails FetchRejected
   \<and> extractionFails (FetchResponse False None)
   \<and> (\<exists>c. contacts (processWithAI 1700000000000 ''2023-11-14T22:13:20.000Z'' FetchRejected draftState) = [c]
         \<and> name c = JStr ''New Contact''
         \<and> meetingContext c = Some (JStr ''Conf Hall B'')
         \<and> summary c = Some (JStr ''Notes captured - AI summary unavailable'')
         \<and> rawNotes c = Some (transcript draftState))"
proof -
  have h: "trim (transcript draftState) \<noteq> []"
    by (rule trim_nonblank_draftState)
  have f: "extractionFails FetchRejected" by simp
  have e: "contacts draftState = []" "name_fd (formData draftState) = []"
    "meetingContext_fd (formData draftState) = ''Conf Hall B''"
    by (simp_all add: draftState_def initialState_def emptyForm_def)
  from processWithAI_fallback [OF h f, of 1700000000000 "''2023-11-14T22:13:20.000Z''"]
  obtain c where "contacts (processWithAI 1700000000000 ''2023-11-14T22:13:20.000Z'' FetchRejected draftState) = c # contacts draftState"
    "name c = JStr (if name_fd (formData draftState) = [] then ''New Contact'' else name_fd (formData draftState))"
    "meetingContext c = draftValue (meetingContext_fd (formData draftState))"
    "summary c = Some (JStr ''Notes captured - AI summary unavailable'')"
    "rawNotes c = Some (transcript draftState)"
    by blast
  with e have "contacts (processWithAI 1700000000000 ''2023-11-14T22:13:20.000Z'' FetchRejected draftState) = [c]
         \<and> name c = JStr ''New Contact''
         \<and> meetingContext c = Some (JStr ''Conf Hall B'')
         \<and> summary c = Some (JStr ''Notes captured - AI summary unavailable'')
         \<and> rawNotes c = Some (transcript draftState)"
    by (simp add: draftValue_def)
  with h f show ?thesis by auto
qed

text \<open>
  C2: when the extraction call succeeds and the six overlapping fields of its result are
  strings, \<^verbatim>\<open>null\<close> or absent, each of these fields of the new contact follows the
  precedence rule; the name is a placeholder where the rule leaves it absent.
\<close>

theorem processWithAI_precedence:
  assumes "trim (transcript st) \<noteq> []"
    and "\<forall>k\<in>set overlappingFields. nullableString (readProp parsed k)"
  shows "\<exists>c. contacts (processWithAI now stamp (FetchResponse True (Some parsed)) st) = c # contacts st
           \<and> currentContact (processWithAI now stamp (FetchResponse True (Some parsed)) st) = Some c
           \<and> name c = (case precedence_spec (readProp parsed ''name'') (name_fd (formData st)) of
                          Some v \<Rightarrow> v
                        | None \<Rightarrow> JStr (if parsed = JNull then ''New Contact'' else ''Unknown Contact''))
           \<and> company c = precedence_spec (readProp parsed ''company'') (company_fd (formData st))
           \<and> role c = precedence_spec (readProp parsed ''role'') (role_fd (formData st))
           \<and> email c = precedence_spec (readProp parsed ''email'') (email_fd (formData st))
           \<and> phone c = precedence_spec (readProp parsed ''phone'') (phone_fd (formData st))
           \<and> location c = precedence_spec (readProp parsed ''location'') (location_fd (formData st))"
proof -
  let ?c = "materialised now stamp (transcript st) (formData st) (photo_s st)
              (FetchResponse True (Some parsed))"
  from assms(2) have n: "nullableString (readProp parsed ''name'')"
    "nullableString (readProp parsed ''company'')" "nullableString (readProp parsed ''role'')"
    "nullableString (readProp parsed ''email'')" "nullableString (readProp parsed ''phone'')"
    "nullableString (readProp parsed ''location'')"
    by (simp_all add: overlappingFields_def)
  have f: "name ?c = (case precedence_spec (readProp parsed ''name'') (name_fd (formData st)) of
                          Some v \<Rightarrow> v
                        | None \<Rightarrow> JStr (if parsed = JNull then ''New Contact'' else ''Unknown Contact''))
           \<and> company ?c = precedence_spec (readProp parsed ''company'') (company_fd (formData st))
           \<and> role ?c = precedence_spec (readProp parsed ''role'') (role_fd (formData st))
           \<and> email ?c = precedence_spec (readProp parsed ''email'') (email_fd (formData st))
           \<and> phone ?c = precedence_spec (readProp parsed ''phone'') (phone_fd (formData st))
           \<and> location ?c = precedence_spec (readProp parsed ''location'') (location_fd (formData st))"
  proof (cases "parsed = JNull")
    case True
    then have "?c = fallbackContact now stamp (transcript st) (formData st) (photo_s st)"
      by (simp add: materialised_fails)
    with True show ?thesis
      by (simp add: fallbackContact_fields precedence_none) (simp add: draftValue_def)
  next
    case False
    from newContact_fields [OF materialised_ok [OF False]] n False show ?thesis
      by (simp add: precedence_or_js precedence_or_default)
  qed
  with processWithAI_fields [OF assms(1), of now stamp "FetchResponse True (Some parsed)"]
  show ?thesis by simp
qed

theorem processWithAI_precedence_witness:
  "trim (transcript draftState) \<noteq> []
   \<and> list_all (\<lambda>k. nullableString (readProp sarahReply k)) overlappingFields
   \<and> (\<exists>c. contacts (processWithAI 1700000000000 ''2023-11-14T22:13:20.000Z''
                (FetchResponse True (Some sarahReply)) draftState) = [c]
         \<and> name c = JStr ''Sarah''
         \<and> company c = Some (JStr ''Acme Corp'')
         \<and> role c = Some (JStr ''VP of Engineering'')
         \<and> email c = None
         \<and> phone c = Some (JStr ''555-0100'')
         \<and> location c = None)"
proof -
  have h: "trim (transcript draftState) \<noteq> []"
    by (rule trim_nonblank_draftState)
  have n: "\<forall>k\<in>set overlappingFields. nullableString (readProp sarahReply k)"
    by (simp add: overlappingFields_def sarahReply_def)
  have e: "contacts draftState = []"
    "name_fd (formData draftState) = []" "company_fd (formData draftState) = []"
    "role_fd (formData draftState) = []" "email_fd (formData draftState) = []"
    "phone_fd (formData draftState) = ''555-0100''" "location_fd (formData draftState) = []"
    by (simp_all add: draftState_def initialState_def emptyForm_def)
  have p: "readProp sarahReply ''name'' = Some (JStr ''Sarah'')"
    "readProp sarahReply ''company'' = Some (JStr ''Acme Corp'')"
    "readProp sarahReply ''role'' = Some (JStr ''VP of Engineering'')"
    "readProp sarahReply ''email'' = Some JNull"
    "readProp sarahReply ''phone'' = Some (JStr [])"
    "readProp sarahReply ''location'' = None"
    by (simp_all add: sarahReply_def)
  from processWithAI_precedence [OF h n, of 1700000000000 "''2023-11-14T22:13:20.000Z''"]
  have "\<exists>c. contacts (processWithAI 1700000000000 ''2023-11-14T22:13:20.000Z''
                (FetchResponse True (Some sarahReply)) draftState) = [c]
         \<and> name c = JStr ''Sarah''
         \<and> company c = Some (JStr ''Acme Corp'')
         \<and> role c = Some (JStr ''VP of Engineering'')
         \<and> email c = None
         \<and> phone c = Some (JStr ''555-0100'')
         \<and> location c = None"
    unfolding e p by (simp add: precedence_spec_def) blast
  with h n show ?thesis by (simp add: list_all_iff)
qed

section \<open>Properties of sequences of creations\<close>

lemma create_contacts:
  "trim (transcript_cr cr) \<noteq> [] \<Longrightarrow> contacts (create cr st) = created cr # contacts st"
  by (simp add: create_def created_def composeDraft_def processWithAI_eq showCreated_fields)

lemma createAll_contacts:
  "\<forall>cr\<in>set crs. trim (transcript_cr cr) \<noteq> [] \<Longrightarrow>
   contacts (createAll crs st) = rev (map created crs) @ contacts st"
proof (induction crs arbitrary: st)
  case Nil
  then show ?case by (simp add: createAll_def)
next
  case (Cons cr crs)
  have "createAll (cr # crs) st = createAll crs (create cr st)"
    by (simp add: createAll_def)
  with Cons show ?case by (simp add: create_contacts)
qed

lemma created_id: "id_c (created cr) = now_cr cr"
  by (simp add: created_def materialised_id)

lemma twoCreations_nonblank: "\<forall>cr\<in>set twoCreations. trim (transcript_cr cr) \<noteq> []"
  by (simp add: twoCreations_def annCreation_def bobCreation_def trim_def isWhiteSpace_def)

lemma created_rawNotes: "rawNotes (created cr) = Some (transcript_cr cr)"
  by (cases "outcome_cr cr")
     (auto simp: created_def materialised_def newContact_def fallbackContact_def
           split: option.splits bool.splits)

text \<open>
  C7: starting from an empty list, a sequence of N creations, each with a transcript that
  is not blank and each settling by the success path or the fallback, leaves a list of
  length N with the newest contact first: the contact created last is at index 0, and
  the contact at index \<open>i\<close> is the one created \<open>i\<close> creations before the last. One more
  creation puts its contact in front of the list.
\<close>

theorem createAll_newest_first:
  assumes "contacts st = []"
    and "\<forall>cr\<in>set crs. trim (transcript_cr cr) \<noteq> []"
  shows "length (contacts (createAll crs st)) = length crs
     \<and> contacts (createAll crs st) = rev (map created crs)
     \<and> (\<forall>i<length crs. contacts (createAll crs st) ! i = created (crs ! (length crs - 1 - i)))
     \<and> (crs \<noteq> [] \<longrightarrow> contacts (createAll crs st) ! 0 = created (last crs))
     \<and> contacts (createAll (crs @ [cr]) st) =
         (if trim (transcript_cr cr) = [] then contacts (createAll crs st)
          else created cr # contacts (createAll crs st))"
proof -
  have eq: "contacts (createAll crs st) = rev (map created crs)"
    using createAll_contacts [OF assms(2), of st] assms(1) by simp
  have nth: "\<forall>i<length crs. contacts (createAll crs st) ! i = created (crs ! (length crs - 1 - i))"
    by (simp add: eq rev_nth)
  have hd0: "crs \<noteq> [] \<longrightarrow> contacts (createAll crs st) ! 0 = created (last crs)"
    using nth by (simp add: last_conv_nth)
  have step: "createAll (crs @ [cr]) st = create cr (createAll crs st)"
    by (simp add: createAll_def)
  have blank: "trim (transcript_cr cr) = [] \<Longrightarrow> contacts (create cr s) = contacts s" for s
    by (simp add: create_def processWithAI_def processWithAI_begin_def composeDraft_def)
  have last: "contacts (createAll (crs @ [cr]) st) =
         (if trim (transcript_cr cr) = [] then contacts (createAll crs st)
          else created cr # contacts (createAll crs st))"
    by (simp add: step blank create_contacts)
  from eq nth hd0 last show ?thesis by simp
qed

theorem createAll_newest_first_witness:
  "contacts initialState = []
   \<and> list_all (\<lambda>cr. trim (transcript_cr cr) \<noteq> []) twoCreations
   \<and> length (contacts (createAll twoCreations initialState)) = 2
   \<and> contacts (createAll twoCreations initialState) ! 0 = created bobCreation
   \<and> contacts (createAll twoCreations initialState) ! 1 = created annCreation
   \<and> rawNotes (created bobCreation) = Some ''Met Bob''"
proof -
  have e: "contacts initialState = []" by (simp add: initialState_def)
  have n: "\<forall>cr\<in>set twoCreations. trim (transcript_cr cr) \<noteq> []"
    by (rule twoCreations_nonblank)
  have r: "rawNotes (created bobCreation) = Some ''Met Bob''"
    by (simp add: created_rawNotes) (simp add: bobCreation_def)
  from createAll_newest_first [OF e n]
  have "length (contacts (createAll twoCreations initialState)) = length twoCreations"
    and "contacts (createAll twoCreations initialState) = rev (map created twoCreations)"
    by blast+
  then have "length (contacts (createAll twoCreations initialState)) = 2
   \<and> contacts (createAll twoCreations initialState) ! 0 = created bobCreation
   \<and> contacts (createAll twoCreations initialState) ! 1 = created annCreation"
    by (simp add: twoCreations_def)
  with e n r show ?thesis by (simp add: list_all_iff)
qed

text \<open>
  C10: the id of a created contact is the clock reading of its creation, so two contacts
  created in the same millisecond have equal ids; and \<open>deleteContact\<close> keeps exactly the
  contacts whose id differs from the given one, so it removes every contact that carries
  that id, however many there are.
\<close>

theorem same_millisecond_ids_deleted_together:
  "id_c (created a) = now_cr a
   \<and> (now_cr a = now_cr b \<longrightarrow> id_c (created a) = id_c (created b))
   \<and> contacts (deleteContact i st) = filter (\<lambda>c. id_c c \<noteq> i) (contacts st)
   \<and> (\<forall>c\<in>set (contacts (deleteContact i st)). id_c c \<noteq> i)
   \<and> length (contacts (deleteContact i st)) + length (filter (\<lambda>c. id_c c = i) (contacts st))
       = length (contacts st)"
proof -
  have "length (filter (\<lambda>c. id_c c = i) (contacts st))
          + length (filter (\<lambda>c. \<not> id_c c = i) (contacts st)) = length (contacts st)"
    by (rule sum_length_filter_compl)
  then show ?thesis
    by (simp add: created_id deleteContact_fields)
qed

theorem same_millisecond_ids_deleted_together_witness:
  "now_cr annCreation = now_cr bobCreation
   \<and> created annCreation \<noteq> created bobCreation
   \<and> id_c (created annCreation) = id_c (created bobCreation)
   \<and> contacts (createAll twoCreations initialState) = [created bobCreation, created annCreation]
   \<and> contacts (deleteContact 7 (createAll twoCreations initialState)) = []"
proof -
  have n: "now_cr annCreation = now_cr bobCreation"
    by (simp add: annCreation_def bobCreation_def)
  have n7: "now_cr annCreation = 7"
    by (simp add: annCreation_def)
  have d: "created annCreation \<noteq> created bobCreation"
  proof
    assume "created annCreation = created bobCreation"
    then have "rawNotes (created annCreation) = rawNotes (created bobCreation)"
      by simp
    then show False
      by (simp add: created_rawNotes) (simp add: annCreation_def bobCreation_def)
  qed
  have "contacts initialState = []"
    by (simp add: initialState_def)
  with createAll_contacts [OF twoCreations_nonblank, of initialState]
  have cs: "contacts (createAll twoCreations initialState) = [created bobCreation, created annCreation]"
    by (simp add: twoCreations_def)
  note t = same_millisecond_ids_deleted_together
    [of annCreation bobCreation 7 "createAll twoCreations initialState"]
  from t n have same: "id_c (created annCreation) = id_c (created bobCreation)"
    by blast
  from t n7 have a7: "id_c (created annCreation) = 7"
    by simp
  from t have del: "contacts (deleteContact 7 (createAll twoCreations initialState))
        = filter (\<lambda>c. id_c c \<noteq> 7) (contacts (createAll twoCreations initialState))"
    by blast
  from same a7 have b7: "id_c (created bobCreation) = 7"
    by simp
  from del cs a7 b7 have "contacts (deleteContact 7 (createAll twoCreations initialState)) = []"
    by simp
  with n d same cs show ?thesis by blast
qed

section \<open>Properties of the vCard export\<close>

text \<open>
  C5 requires that an absent field produces no line at all, so that a contact with
  nothing but a name gives the five lines \<open>BEGIN:VCARD\<close>, \<open>VERSION:3.0\<close>, \<open>FN:\<close> with the
  name, the \<open>NOTE:\<close> line and \<open>END:VCARD\<close>. The code does not do that: for the contact
  with nothing but the name \<open>Ann\<close> each of the five absent fields contributes the empty
  text to a line of its own, and the document has ten lines, five of them empty.
\<close>

theorem generateVCard_emits_empty_lines:
  "generateVCard (nameOnly 1 (JStr ''Ann'')) =
     Inr (''BEGIN:VCARD'' @ nl @ ''VERSION:3.0'' @ nl @ ''FN:Ann'' @ nl @ nl @ nl @ nl @ nl @ nl @
          ''NOTE: | Met: Conference'' @ nl @ ''END:VCARD'')
   \<and> map_sum id lines_of (generateVCard (nameOnly 1 (JStr ''Ann''))) =
       Inr [''BEGIN:VCARD'', ''VERSION:3.0'', ''FN:Ann'', [], [], [], [], [],
            ''NOTE: | Met: Conference'', ''END:VCARD'']
   \<and> map_sum id lines_of (generateVCard (nameOnly 1 (JStr ''Ann''))) \<noteq>
       Inr [''BEGIN:VCARD'', ''VERSION:3.0'', ''FN:Ann'', ''NOTE: | Met: Conference'',
            ''END:VCARD'']"
  by (simp add: generateVCard_def nameOnly_def piece_def cat_def or_default_def nl_def)

section \<open>Properties of the load and save effects\<close>

text \<open>
  C6 requires that the save effect writes nothing during the first cycle, so that the
  initial empty list never replaces a stored one. The code does write: with a stored list
  of one contact and the initial state, whose list is empty, the save effect of the first
  cycle finds \<open>loadFromStorage\<close> non-empty, so its guard holds and it writes the empty
  list over the stored one. The load effect has read the stored list before, and the save
  effect of the next cycle writes it back.
\<close>

theorem firstCycle_overwrites_stored_list:
  "firstCycle \<lparr> hasWindow = True, stored = Some [nameOnly 1 (JStr ''Ann'')] \<rparr> initialState =
     (\<lparr> hasWindow = True, stored = Some [] \<rparr>,
      initialState \<lparr> contacts := [nameOnly 1 (JStr ''Ann'')] \<rparr>)
   \<and> fst (laterCycle (firstCycle \<lparr> hasWindow = True, stored = Some [nameOnly 1 (JStr ''Ann'')] \<rparr>
                         initialState)) =
       \<lparr> hasWindow = True, stored = Some [nameOnly 1 (JStr ''Ann'')] \<rparr>"
  by (simp add: firstCycle_def laterCycle_def saveEffect_def loadEffect_def saveToStorage_def
        loadFromStorage_def initialState_def)

section \<open>Properties of the extraction endpoint\<close>

lemma POST_try_absent:
  "POST_try create_msg parse None = (Inl SyntaxError, [])"
  "POST_try create_msg parse (Some JNull) = (Inl TypeError, [])"
  by (simp_all add: POST_try_def)

lemma getProp_Some: "b \<noteq> JNull \<Longrightarrow> getProp (Some b) k = Inr (readProp b k)"
  by (cases b) simp_all

lemma POST_try_no_transcript:
  "b \<noteq> JNull \<Longrightarrow> \<not> truthy (readProp b ''transcript'') \<Longrightarrow>
   POST_try create_msg parse (Some b) = (Inr (errorResponse ''No transcript provided'' 400), [])"
  by (simp add: POST_try_def getProp_Some)

lemma POST_try_no_prompt:
  "b \<noteq> JNull \<Longrightarrow> truthy (readProp b ''transcript'') \<Longrightarrow>
   buildPrompt (readProp b ''transcript'') (readProp b ''formData'') = Inl e \<Longrightarrow>
   POST_try create_msg parse (Some b) = (Inl e, [])"
  by (simp add: POST_try_def getProp_Some)

lemma POST_try_prompt:
  "b \<noteq> JNull \<Longrightarrow> truthy (readProp b ''transcript'') \<Longrightarrow>
   buildPrompt (readProp b ''transcript'') (readProp b ''formData'') = Inr p \<Longrightarrow>
   POST_try create_msg parse (Some b) =
     (case create_msg p of
        UpstreamThrows \<Rightarrow> (Inl UpstreamFailed, [p])
      | UpstreamMessage content \<Rightarrow>
          (case find isTextBlock content of
             Some (TextBlock answer) \<Rightarrow>
               (case parse (cleanText answer) of
                  None \<Rightarrow> (Inl SyntaxError, [p])
                | Some parsed \<Rightarrow> (Inr \<lparr> status = 200, body = parsed \<rparr>, [p]))
           | _ \<Rightarrow> (Inl (Error ''No text content in response''), [p])))"
  by (simp add: POST_try_def getProp_Some)

lemma find_isTextBlock:
  assumes "find isTextBlock content = Some blk"
  shows "\<exists>answer. blk = TextBlock answer"
proof -
  from assms obtain i where "isTextBlock (content ! i)" and "blk = content ! i"
    by (auto simp: find_Some_iff)
  then have "isTextBlock blk" by simp
  then show ?thesis by (cases blk) simp_all
qed

lemma buildPrompt_no_form:
  "form = None \<or> form = Some JNull \<Longrightarrow> \<exists>e. buildPrompt tscript form = Inl e"
  by (cases "interp tscript") (auto simp: buildPrompt_def)

lemma buildPrompt_unprintable:
  "interp tscript = Inl e \<Longrightarrow> buildPrompt tscript form = Inl e"
  by (simp add: buildPrompt_def)

lemma POST_absent:
  "req = None \<or> req = Some JNull \<Longrightarrow>
   POST create_msg parse req = (errorResponse ''Failed to process with AI'' 500, [])"
  by (auto simp: POST_def POST_try_absent)

lemma POST_no_transcript:
  "b \<noteq> JNull \<Longrightarrow> \<not> truthy (readProp b ''transcript'') \<Longrightarrow>
   POST create_msg parse (Some b) = (errorResponse ''No transcript provided'' 400, [])"
  by (simp add: POST_def POST_try_no_transcript)

lemma POST_no_prompt:
  "b \<noteq> JNull \<Longrightarrow> truthy (readProp b ''transcript'') \<Longrightarrow>
   buildPrompt (readProp b ''transcript'') (readProp b ''formData'') = Inl e \<Longrightarrow>
   POST create_msg parse (Some b) = (errorResponse ''Failed to process with AI'' 500, [])"
  using POST_try_no_prompt [of b e create_msg parse] by (simp add: POST_def)

lemma POST_upstream_throws:
  "b \<noteq> JNull \<Longrightarrow> truthy (readProp b ''transcript'') \<Longrightarrow>
   buildPrompt (readProp b ''transcript'') (readProp b ''formData'') = Inr p \<Longrightarrow>
   create_msg p = UpstreamThrows \<Longrightarrow>
   POST create_msg parse (Some b) = (errorResponse ''Failed to process with AI'' 500, [p])"
  using POST_try_prompt [of b p create_msg parse] by (simp add: POST_def)

lemma POST_no_text:
  "b \<noteq> JNull \<Longrightarrow> truthy (readProp b ''transcript'') \<Longrightarrow>
   buildPrompt (readProp b ''transcript'') (readProp b ''formData'') = Inr p \<Longrightarrow>
   create_msg p = UpstreamMessage content \<Longrightarrow>
   find isTextBlock content = None \<Longrightarrow>
   POST create_msg parse (Some b) = (errorResponse ''Failed to process with AI'' 500, [p])"
  using POST_try_prompt [of b p create_msg parse] by (simp add: POST_def)

lemma POST_parse_fails:
  "b \<noteq> JNull \<Longrightarrow> truthy (readProp b ''transcript'') \<Longrightarrow>
   buildPrompt (readProp b ''transcript'') (readProp b ''formData'') = Inr p \<Longrightarrow>
   create_msg p = UpstreamMessage content \<Longrightarrow>
   find isTextBlock content = Some (TextBlock answer) \<Longrightarrow>
   parse (cleanText answer) = None \<Longrightarrow>
   POST create_msg parse (Some b) = (errorResponse ''Failed to process with AI'' 500, [p])"
  using POST_try_prompt [of b p create_msg parse] by (simp add: POST_def)

lemma POST_ok:
  "b \<noteq> JNull \<Longrightarrow> truthy (readProp b ''transcript'') \<Longrightarrow>
   buildPrompt (readProp b ''transcript'') (readProp b ''formData'') = Inr p \<Longrightarrow>
   create_msg p = UpstreamMessage content \<Longrightarrow>
   find isTextBlock content = Some (TextBlock answer) \<Longrightarrow>
   parse (cleanText answer) = Some parsed \<Longrightarrow>
   POST create_msg parse (Some b) = (\<lparr> status = 200, body = parsed \<rparr>, [p])"
  using POST_try_prompt [of b p create_msg parse] by (simp add: POST_def)

text \<open>Every request is answered in one of three ways.\<close>

lemma POST_trichotomy:
  "(\<exists>b. req = Some b \<and> b \<noteq> JNull \<and> \<not> truthy (readProp b ''transcript'')
        \<and> POST create_msg parse req = (errorResponse ''No transcript provided'' 400, []))
   \<or> (\<not> (\<exists>b. req = Some b \<and> b \<noteq> JNull \<and> \<not> truthy (readProp b ''transcript''))
        \<and> (\<exists>calls. POST create_msg parse req =
                      (errorResponse ''Failed to process with AI'' 500, calls)))
   \<or> (\<exists>b p content answer parsed.
         req = Some b \<and> b \<noteq> JNull \<and> truthy (readProp b ''transcript'')
         \<and> buildPrompt (readProp b ''transcript'') (readProp b ''formData'') = Inr p
         \<and> create_msg p = UpstreamMessage content
         \<and> find isTextBlock content = Some (TextBlock answer)
         \<and> parse (cleanText answer) = Some parsed
         \<and> POST create_msg parse req = (\<lparr> status = 200, body = parsed \<rparr>, [p]))"
proof (cases "req = None \<or> req = Some JNull")
  case True
  from POST_absent [OF True, of create_msg parse] True show ?thesis by auto
next
  case False
  then obtain b where b: "req = Some b" "b \<noteq> JNull" by auto
  show ?thesis
  proof (cases "truthy (readProp b ''transcript'')")
    case False
    from POST_no_transcript [OF b(2) False, of create_msg parse] b False show ?thesis by simp
  next
    case True
    note t = b(2) True
    from b True have n: "\<not> (\<exists>b. req = Some b \<and> b \<noteq> JNull \<and> \<not> truthy (readProp b ''transcript''))"
      by simp
    show ?thesis
    proof (cases "buildPrompt (readProp b ''transcript'') (readProp b ''formData'')")
      case (Inl e)
      from POST_no_prompt [OF t Inl, of create_msg parse] b n show ?thesis by simp
    next
      case (Inr p)
      show ?thesis
      proof (cases "create_msg p")
        case UpstreamThrows
        from POST_upstream_throws [of b p create_msg parse, OF t Inr UpstreamThrows] b n
        show ?thesis by simp
      next
        case (UpstreamMessage content)
        show ?thesis
        proof (cases "find isTextBlock content")
          case None
          from POST_no_text [of b p create_msg content parse, OF t Inr UpstreamMessage None] b n
          show ?thesis by simp
        next
          case (Some blk)
          with find_isTextBlock obtain answer
            where a: "find isTextBlock content = Some (TextBlock answer)"
            by blast
          show ?thesis
          proof (cases "parse (cleanText answer)")
            case None
            from POST_parse_fails [of b p create_msg content answer parse,
                OF t Inr UpstreamMessage a None] b n
            show ?thesis by simp
          next
            case (Some parsed)
            from POST_ok [of b p create_msg content answer parse parsed,
                OF t Inr UpstreamMessage a Some] b True Inr UpstreamMessage a Some
            show ?thesis by blast
          qed
        qed
      qed
    qed
  qed
qed

lemma cleanText_fenced: \<open>cleanText (''```json'' @ nl @ ''{}'' @ nl @ ''```'') = ''{}''\<close>
  by code_simp

lemma piece_hint: "piece label (Some (JStr v)) [] = Inr (hintLine label v)"
  by (simp add: piece_def hintLine_def interp_def cat_def)

lemma buildPrompt_client:
  "buildPrompt (Some (JStr t)) (Some (formJson fd)) = Inr (expectedPrompt t fd)"
  by (simp add: buildPrompt_def interp_def hintLines_def promptText_def expectedPrompt_def
        formJson_def piece_hint)

lemma sendsPrompt_clientRequest:
  "t \<noteq> [] \<Longrightarrow>
   sendsPrompt (Some (clientRequest t fd)) (clientRequest t fd) (expectedPrompt t fd)"
  using buildPrompt_client [of t fd]
  by (simp add: sendsPrompt_def clientRequest_def formJson_def)

lemma sublist_join: "x \<in> set xs \<Longrightarrow> sublist x (join sep xs)"
proof (induction sep xs rule: join.induct)
  case (1 sep)
  then show ?case by simp
next
  case (2 sep y)
  then show ?case by simp
next
  case (3 sep y z zs)
  show ?case
  proof (cases "x = y")
    case True
    then show ?thesis by simp
  next
    case False
    with 3 have "sublist x (join sep (z # zs))" by simp
    then obtain ps ss where "join sep (z # zs) = ps @ x @ ss"
      by (auto simp: sublist_def)
    then have "join sep (y # z # zs) = (y @ sep @ ps) @ x @ ss" by simp
    then show ?thesis unfolding sublist_def by blast
  qed
qed

lemma POST_client_calls:
  assumes "t \<noteq> []"
  shows "snd (POST create_msg parse (Some (clientRequest t fd))) = [expectedPrompt t fd]"
proof -
  from sendsPrompt_clientRequest [OF assms, of fd]
  have b: "clientRequest t fd \<noteq> JNull" "truthy (readProp (clientRequest t fd) ''transcript'')"
    "buildPrompt (readProp (clientRequest t fd) ''transcript'')
       (readProp (clientRequest t fd) ''formData'') = Inr (expectedPrompt t fd)"
    by (simp_all add: sendsPrompt_def)
  from POST_try_prompt [OF b, of create_msg parse] show ?thesis
    by (auto simp: POST_def split: upstream_reply.splits option.splits content_block.splits)
qed

lemma join_Cons: "xs \<noteq> [] \<Longrightarrow> join sep (x # xs) = x @ sep @ join sep xs"
  by (cases xs) simp_all

lemma at_not_in_format: "CHR ''@'' \<notin> set (join nl responseFormat)"
  by (simp add: responseFormat_def nl_def)

lemma expectedPrompt_emailOnly:
  "expectedPrompt ''hi'' emailOnly =
     instruction @ nl @ nl @ ''Conversation notes:'' @ nl @ ''hi'' @ nl @ nl @ nl @ nl @ nl @ nl @ nl
       @ join nl responseFormat"
proof -
  have "responseFormat \<noteq> []" by (simp add: responseFormat_def)
  then show ?thesis
    by (simp add: expectedPrompt_def emailOnly_def emptyForm_def hintLine_def join_Cons)
qed

text \<open>
  C8: the handler answers 400 exactly when the body of the request is a JSON value other
  than \<^verbatim>\<open>null\<close> whose transcript is missing (absent, or falsy as \<^verbatim>\<open>!transcript\<close> tests
  it); the answer is then the object with the one key \<open>error\<close> and the message
  \<open>No transcript provided\<close>, and no upstream call is made. It answers with status 500 and
  the object with the one key \<open>error\<close> and the message \<open>Failed to process with AI\<close> on
  every processing failure: the body cannot be read or is \<^verbatim>\<open>null\<close>, the form is missing,
  a value cannot be converted to text for the prompt, the upstream call throws, the
  message has no text block, or the cleaned text is not JSON; before the upstream call no
  call is made. In every other case it has made one upstream call and answers with the
  parsed value.
\<close>

theorem POST_responses:
  assumes "POST create_msg parse req = (r, calls)"
  shows "(status r = 400 \<longleftrightarrow>
            (\<exists>b. req = Some b \<and> b \<noteq> JNull \<and> \<not> truthy (readProp b ''transcript'')))
     \<and> (status r = 400 \<longrightarrow>
            r = \<lparr> status = 400, body = JObj [(''error'', JStr ''No transcript provided'')] \<rparr>
            \<and> calls = [])
     \<and> (req = None \<or> req = Some JNull \<longrightarrow>
            r = \<lparr> status = 500, body = JObj [(''error'', JStr ''Failed to process with AI'')] \<rparr>
            \<and> calls = [])
     \<and> (req = Some b \<and> b \<noteq> JNull \<and> truthy (readProp b ''transcript'')
          \<and> (readProp b ''formData'' = None \<or> readProp b ''formData'' = Some JNull
               \<or> interp (readProp b ''transcript'') = Inl e
               \<or> buildPrompt (readProp b ''transcript'') (readProp b ''formData'') = Inl e) \<longrightarrow>
            r = \<lparr> status = 500, body = JObj [(''error'', JStr ''Failed to process with AI'')] \<rparr>
            \<and> calls = [])
     \<and> (sendsPrompt req b p \<longrightarrow> calls = [p])
     \<and> (sendsPrompt req b p \<and> create_msg p = UpstreamThrows \<longrightarrow>
            r = \<lparr> status = 500, body = JObj [(''error'', JStr ''Failed to process with AI'')] \<rparr>)
     \<and> (sendsPrompt req b p \<and> create_msg p = UpstreamMessage content
          \<and> find isTextBlock content = None \<longrightarrow>
            r = \<lparr> status = 500, body = JObj [(''error'', JStr ''Failed to process with AI'')] \<rparr>)
     \<and> (sendsPrompt req b p \<and> create_msg p = UpstreamMessage content
          \<and> find isTextBlock content = Some (TextBlock answer)
          \<and> parse (cleanText answer) = None \<longrightarrow>
            r = \<lparr> status = 500, body = JObj [(''error'', JStr ''Failed to process with AI'')] \<rparr>)
     \<and> (sendsPrompt req b p \<and> create_msg p = UpstreamMessage content
          \<and> find isTextBlock content = Some (TextBlock answer)
          \<and> parse (cleanText answer) = Some parsed \<longrightarrow>
            r = \<lparr> status = 200, body = parsed \<rparr>)
     \<and> (status r \<noteq> 400
          \<and> r \<noteq> \<lparr> status = 500, body = JObj [(''error'', JStr ''Failed to process with AI'')] \<rparr> \<longrightarrow>
            (\<exists>b' p' content' answer' parsed'.
               sendsPrompt req b' p' \<and> create_msg p' = UpstreamMessage content'
               \<and> find isTextBlock content' = Some (TextBlock answer')
               \<and> parse (cleanText answer') = Some parsed'
               \<and> r = \<lparr> status = 200, body = parsed' \<rparr> \<and> calls = [p']))"
proof -
  let ?F = "\<lparr> status = 500, body = JObj [(''error'', JStr ''Failed to process with AI'')] \<rparr>"
  let ?tr = "readProp b ''transcript''" and ?fm = "readProp b ''formData''"
  have F: "errorResponse ''Failed to process with AI'' 500 = ?F"
    by (simp add: errorResponse_def)
  have N: "errorResponse ''No transcript provided'' 400 =
             \<lparr> status = 400, body = JObj [(''error'', JStr ''No transcript provided'')] \<rparr>"
    by (simp add: errorResponse_def)
  note tri = POST_trichotomy [of req create_msg parse, unfolded F N assms]
  have c1: "status r = 400 \<longleftrightarrow>
            (\<exists>b. req = Some b \<and> b \<noteq> JNull \<and> \<not> truthy (readProp b ''transcript''))"
    using tri by auto
  have c2: "status r = 400 \<longrightarrow>
            r = \<lparr> status = 400, body = JObj [(''error'', JStr ''No transcript provided'')] \<rparr>
            \<and> calls = []"
    using tri by auto
  have c3: "req = None \<or> req = Some JNull \<longrightarrow> r = ?F \<and> calls = []"
    using POST_absent [of req create_msg parse] assms by (auto simp: F)
  have c4: "req = Some b \<and> b \<noteq> JNull \<and> truthy ?tr
          \<and> (?fm = None \<or> ?fm = Some JNull \<or> interp ?tr = Inl e \<or> buildPrompt ?tr ?fm = Inl e)
          \<longrightarrow> r = ?F \<and> calls = []"
  proof
    assume h: "req = Some b \<and> b \<noteq> JNull \<and> truthy ?tr
          \<and> (?fm = None \<or> ?fm = Some JNull \<or> interp ?tr = Inl e \<or> buildPrompt ?tr ?fm = Inl e)"
    then have "\<exists>e'. buildPrompt ?tr ?fm = Inl e'"
      using buildPrompt_no_form [of ?fm ?tr] buildPrompt_unprintable [of ?tr e ?fm] by blast
    then obtain e' where "buildPrompt ?tr ?fm = Inl e'" ..
    with h POST_no_prompt [of b e' create_msg parse] assms show "r = ?F \<and> calls = []"
      by (simp add: F)
  qed
  have c5: "sendsPrompt req b p \<longrightarrow> calls = [p]"
  proof
    assume h: "sendsPrompt req b p"
    then have h': "b \<noteq> JNull" "truthy ?tr" "buildPrompt ?tr ?fm = Inr p" and q: "req = Some b"
      by (simp_all add: sendsPrompt_def)
    from assms q POST_try_prompt [OF h', of create_msg parse] show "calls = [p]"
      by (auto simp: POST_def split: upstream_reply.splits option.splits content_block.splits)
  qed
  have c6: "sendsPrompt req b p \<and> create_msg p = UpstreamThrows \<longrightarrow> r = ?F"
    using POST_upstream_throws [of b p create_msg parse] assms
    by (auto simp: F sendsPrompt_def)
  have c7: "sendsPrompt req b p \<and> create_msg p = UpstreamMessage content
          \<and> find isTextBlock content = None \<longrightarrow> r = ?F"
    using POST_no_text [of b p create_msg content parse] assms
    by (auto simp: F sendsPrompt_def)
  have c8: "sendsPrompt req b p \<and> create_msg p = UpstreamMessage content
          \<and> find isTextBlock content = Some (TextBlock answer)
          \<and> parse (cleanText answer) = None \<longrightarrow> r = ?F"
    using POST_parse_fails [of b p create_msg content answer parse] assms
    by (auto simp: F sendsPrompt_def)
  have c9: "sendsPrompt req b p \<and> create_msg p = UpstreamMessage content
          \<and> find isTextBlock content = Some (TextBlock answer)
          \<and> parse (cleanText answer) = Some parsed \<longrightarrow> r = \<lparr> status = 200, body = parsed \<rparr>"
    using POST_ok [of b p create_msg content answer parse parsed] assms
    by (auto simp: sendsPrompt_def)
  have c10: "status r \<noteq> 400 \<and> r \<noteq> ?F \<longrightarrow>
            (\<exists>b' p' content' answer' parsed'.
               sendsPrompt req b' p' \<and> create_msg p' = UpstreamMessage content'
               \<and> find isTextBlock content' = Some (TextBlock answer')
               \<and> parse (cleanText answer') = Some parsed'
               \<and> r = \<lparr> status = 200, body = parsed' \<rparr> \<and> calls = [p'])"
    using tri unfolding sendsPrompt_def by auto
  from c1 c2 c3 c4 c5 c6 c7 c8 c9 c10 show ?thesis by blast
qed

theorem POST_responses_witness:
  "sendsPrompt (Some (clientRequest ''hi'' hallB)) (clientRequest ''hi'' hallB)
      (expectedPrompt ''hi'' hallB)
   \<and> POST upstreamFenced parseEmptyObject (Some (clientRequest ''hi'' hallB)) =
       (\<lparr> status = 200, body = JObj [] \<rparr>, [expectedPrompt ''hi'' hallB])
   \<and> POST upstreamDown parseEmptyObject (Some (clientRequest ''hi'' hallB)) =
       (\<lparr> status = 500, body = JObj [(''error'', JStr ''Failed to process with AI'')] \<rparr>,
        [expectedPrompt ''hi'' hallB])
   \<and> interp (readProp unprintableRequest ''transcript'') = Inl TypeError
   \<and> POST upstreamFenced parseEmptyObject (Some unprintableRequest) =
       (\<lparr> status = 500, body = JObj [(''error'', JStr ''Failed to process with AI'')] \<rparr>, [])
   \<and> POST upstreamFenced parseEmptyObject (Some (JObj [(''formData'', JObj [])])) =
       (\<lparr> status = 400, body = JObj [(''error'', JStr ''No transcript provided'')] \<rparr>, [])"
proof -
  let ?b = "clientRequest ''hi'' hallB"
  let ?p = "expectedPrompt ''hi'' hallB"
  let ?A = "POST upstreamFenced parseEmptyObject (Some ?b)"
  let ?B = "POST upstreamDown parseEmptyObject (Some ?b)"
  let ?C = "POST upstreamFenced parseEmptyObject (Some unprintableRequest)"
  let ?D = "POST upstreamFenced parseEmptyObject (Some (JObj [(''formData'', JObj [])]))"
  have sp: "sendsPrompt (Some ?b) ?b ?p"
    by (rule sendsPrompt_clientRequest) simp
  have up: \<open>upstreamFenced ?p =
      UpstreamMessage [OtherBlock ''thinking'', TextBlock (''```json'' @ nl @ ''{}'' @ nl @ ''```'')]\<close>
    by (simp add: upstreamFenced_def)
  have fi: \<open>find isTextBlock [OtherBlock ''thinking'', TextBlock (''```json'' @ nl @ ''{}'' @ nl @ ''```'')]
      = Some (TextBlock (''```json'' @ nl @ ''{}'' @ nl @ ''```''))\<close>
    by simp
  have pa: \<open>parseEmptyObject (cleanText (''```json'' @ nl @ ''{}'' @ nl @ ''```'')) = Some (JObj [])\<close>
    by (subst cleanText_fenced) (simp add: parseEmptyObject_def)
  have hA: "?A = (fst ?A, snd ?A)" by simp
  note tA = POST_responses [OF hA, where b = ?b and p = ?p and parsed = "JObj []"
      and content = \<open>[OtherBlock ''thinking'', TextBlock (''```json'' @ nl @ ''{}'' @ nl @ ''```'')]\<close>
      and answer = \<open>''```json'' @ nl @ ''{}'' @ nl @ ''```''\<close>]
  from tA sp have "snd ?A = [?p]" by - ((elim conjE)?, simp)
  moreover from tA sp up fi pa have "fst ?A = \<lparr> status = 200, body = JObj [] \<rparr>" by - ((elim conjE)?, simp)
  ultimately have A: "?A = (\<lparr> status = 200, body = JObj [] \<rparr>, [?p])"
    by (simp add: prod_eq_iff)
  have hB: "?B = (fst ?B, snd ?B)" by simp
  note tB = POST_responses [OF hB, where b = ?b and p = ?p]
  have dn: "upstreamDown ?p = UpstreamThrows" by (simp add: upstreamDown_def)
  from tB sp have "snd ?B = [?p]" by - ((elim conjE)?, simp)
  moreover from tB sp dn
  have "fst ?B = \<lparr> status = 500, body = JObj [(''error'', JStr ''Failed to process with AI'')] \<rparr>"
    by - ((elim conjE)?, simp)
  ultimately have B: "?B = (\<lparr> status = 500, body = JObj [(''error'', JStr ''Failed to process with AI'')] \<rparr>, [?p])"
    by (simp add: prod_eq_iff)
  have ui: "interp (readProp unprintableRequest ''transcript'') = Inl TypeError"
    by (simp add: unprintableRequest_def interp_def)
  have ut: "Some unprintableRequest = Some unprintableRequest \<and> unprintableRequest \<noteq> JNull
      \<and> truthy (readProp unprintableRequest ''transcript'')"
    by (simp add: unprintableRequest_def)
  have hC: "?C = (fst ?C, snd ?C)" by simp
  note tC = POST_responses [OF hC, where b = unprintableRequest and e = TypeError]
  from tC ui ut
  have "fst ?C = \<lparr> status = 500, body = JObj [(''error'', JStr ''Failed to process with AI'')] \<rparr>
          \<and> snd ?C = []"
    by - ((elim conjE)?, simp)
  then have C: "?C = (\<lparr> status = 500, body = JObj [(''error'', JStr ''Failed to process with AI'')] \<rparr>, [])"
    by (simp add: prod_eq_iff)
  have hD: "?D = (fst ?D, snd ?D)" by simp
  note tD = POST_responses [OF hD]
  have "\<exists>b. Some (JObj [(''formData'', JObj [])]) = Some b \<and> b \<noteq> JNull
          \<and> \<not> truthy (readProp b ''transcript'')"
    by simp
  with tD have "fst ?D = \<lparr> status = 400, body = JObj [(''error'', JStr ''No transcript provided'')] \<rparr>
          \<and> snd ?D = []"
    by - ((elim conjE)?, simp)
  then have D: "?D = (\<lparr> status = 400, body = JObj [(''error'', JStr ''No transcript provided'')] \<rparr>, [])"
    by (simp add: prod_eq_iff)
  from sp A B ui C D show ?thesis by simp
qed

text \<open>
  C9, as stated, fails: the email hint is a non-empty hint field of the submitted form,
  and the prompt sent upstream does not contain it.
\<close>

theorem POST_prompt_email_counterexample:
  "email_fd emailOnly = ''a@b.c''
   \<and> snd (POST upstreamDown parseEmptyObject (Some (clientRequest ''hi'' emailOnly))) =
       [expectedPrompt ''hi'' emailOnly]
   \<and> \<not> sublist ''a@b.c'' (expectedPrompt ''hi'' emailOnly)"
proof -
  have "CHR ''@'' \<notin> set (expectedPrompt ''hi'' emailOnly)"
    by (simp add: expectedPrompt_emailOnly at_not_in_format) (simp add: instruction_def nl_def)
  then have "\<not> sublist ''a@b.c'' (expectedPrompt ''hi'' emailOnly)"
    by (auto dest: set_mono_sublist)
  moreover have "snd (POST upstreamDown parseEmptyObject (Some (clientRequest ''hi'' emailOnly))) =
       [expectedPrompt ''hi'' emailOnly]"
    by (rule POST_client_calls) simp
  moreover have "email_fd emailOnly = ''a@b.c''"
    by (simp add: emailOnly_def)
  ultimately show ?thesis by simp
qed

text \<open>
  C9, amended: for every request of the client with a non-empty transcript, the one
  prompt sent upstream is the fixed template with the transcript and, each on a line of
  its own, the hints name, company, role and meeting context, a hint that is empty leaving
  its line empty. So the prompt contains the transcript and every non-empty one of these
  four hints with its label; the hints email, phone and location are not part of it: the
  prompt is the same whatever they are.
\<close>

theorem POST_prompt_hints:
  assumes "t \<noteq> []"
  shows "snd (POST create_msg parse (Some (clientRequest t fd))) = [expectedPrompt t fd]
     \<and> sublist t (expectedPrompt t fd)
     \<and> (name_fd fd \<noteq> [] \<longrightarrow> sublist (''Name provided: '' @ name_fd fd) (expectedPrompt t fd))
     \<and> (company_fd fd \<noteq> [] \<longrightarrow>
          sublist (''Company provided: '' @ company_fd fd) (expectedPrompt t fd))
     \<and> (role_fd fd \<noteq> [] \<longrightarrow> sublist (''Role provided: '' @ role_fd fd) (expectedPrompt t fd))
     \<and> (meetingContext_fd fd \<noteq> [] \<longrightarrow>
          sublist (''Meeting context: '' @ meetingContext_fd fd) (expectedPrompt t fd))
     \<and> snd (POST create_msg parse
              (Some (clientRequest t (fd \<lparr> email_fd := e, phone_fd := p, location_fd := l \<rparr>)))) =
         snd (POST create_msg parse (Some (clientRequest t fd)))"
proof -
  have 1: "sublist t (expectedPrompt t fd)"
    unfolding expectedPrompt_def by (rule sublist_join) simp
  have 2: "sublist (hintLine ''Name provided: '' (name_fd fd)) (expectedPrompt t fd)"
    unfolding expectedPrompt_def by (rule sublist_join) simp
  have 3: "sublist (hintLine ''Company provided: '' (company_fd fd)) (expectedPrompt t fd)"
    unfolding expectedPrompt_def by (rule sublist_join) simp
  have 4: "sublist (hintLine ''Role provided: '' (role_fd fd)) (expectedPrompt t fd)"
    unfolding expectedPrompt_def by (rule sublist_join) simp
  have 5: "sublist (hintLine ''Meeting context: '' (meetingContext_fd fd)) (expectedPrompt t fd)"
    unfolding expectedPrompt_def by (rule sublist_join) simp
  have 6: "expectedPrompt t (fd \<lparr> email_fd := e, phone_fd := p, location_fd := l \<rparr>) =
             expectedPrompt t fd"
    by (simp add: expectedPrompt_def)
  from 2 3 4 5 have "(name_fd fd \<noteq> [] \<longrightarrow> sublist (''Name provided: '' @ name_fd fd) (expectedPrompt t fd))
     \<and> (company_fd fd \<noteq> [] \<longrightarrow>
          sublist (''Company provided: '' @ company_fd fd) (expectedPrompt t fd))
     \<and> (role_fd fd \<noteq> [] \<longrightarrow> sublist (''Role provided: '' @ role_fd fd) (expectedPrompt t fd))
     \<and> (meetingContext_fd fd \<noteq> [] \<longrightarrow>
          sublist (''Meeting context: '' @ meetingContext_fd fd) (expectedPrompt t fd))"
    by (auto simp: hintLine_def split: if_splits)
  with 1 6 POST_client_calls [OF assms] show ?thesis by simp
qed

theorem POST_prompt_hints_witness:
  "''hi'' \<noteq> []
   \<and> snd (POST upstreamDown parseEmptyObject (Some (clientRequest ''hi'' hallB))) =
       [expectedPrompt ''hi'' hallB]
   \<and> sublist ''Name provided: Sarah'' (expectedPrompt ''hi'' hallB)
   \<and> sublist ''Meeting context: Conf Hall B'' (expectedPrompt ''hi'' hallB)"
proof -
  have h: "''hi'' \<noteq> []" by simp
  have f: "name_fd hallB = ''Sarah''" "meetingContext_fd hallB = ''Conf Hall B''"
    by (simp_all add: hallB_def)
  from POST_prompt_hints [OF h, of upstreamDown parseEmptyObject hallB]
  show ?thesis by (simp add: f)
qed

end
